theory Spec2Isabelle
  imports Complex_Main
begin

section \<open>The host platform: JavaScript numbers\<close>

text \<open>
  The program is TypeScript running on a JavaScript host. Its \<open>number\<close> values are
  IEEE-754 doubles: besides the finite values there are \<open>NaN\<close>, the two infinities and a
  negative zero, and the program's truthiness tests (\<open>!latest\<close>, \<open>limit ? ... : ...\<close>) and
  comparisons (\<open>=== 0\<close>, \<open>>= 0\<close>) distinguish them. A finite double is modelled by its exact
  real value: \<open>Fin 0\<close> is \<open>+0\<close>, \<open>NegZero\<close> is \<open>-0\<close>, and every arithmetic result is
  rounded to the nearest double (ties to even) by \<open>toDouble\<close>.
\<close>

datatype number = NaN | PosInf | NegInf | NegZero | Fin real

fun mathVal :: "number \<Rightarrow> real" where
  "mathVal (Fin q) = q"
| "mathVal _ = 0"

fun isNegative :: "number \<Rightarrow> bool" where
  "isNegative NegInf = True"
| "isNegative NegZero = True"
| "isNegative (Fin q) = (q < 0)"
| "isNegative _ = False"

definition isInf :: "number \<Rightarrow> bool" where
  "isInf x = (x = PosInf \<or> x = NegInf)"

definition isZero :: "number \<Rightarrow> bool" where
  "isZero x = (x = NegZero \<or> x = Fin 0)"

definition isFinite :: "number \<Rightarrow> bool" where
  "isFinite x = (x \<noteq> NaN \<and> \<not> isInf x)"

definition signedInf :: "bool \<Rightarrow> number" where
  "signedInf neg = (if neg then NegInf else PosInf)"

definition signedZero :: "bool \<Rightarrow> number" where
  "signedZero neg = (if neg then NegZero else Fin 0)"

subsection \<open>Rounding to the nearest double\<close>

text \<open>The number of binary digits of a positive integer.\<close>

function bits :: "int \<Rightarrow> int" where
  "bits n = (if n \<le> 0 then 0 else 1 + bits (n div 2))"
  by pat_completeness auto
termination
  by (relation "measure nat") auto

declare bits.simps [simp del]

definition pow2 :: "int \<Rightarrow> real" where
  "pow2 k = (if 0 \<le> k then 2 ^ nat k else 1 / 2 ^ nat (- k))"

definition pow10 :: "int \<Rightarrow> real" where
  "pow10 k = (if 0 \<le> k then 10 ^ nat k else 1 / 10 ^ nat (- k))"

text \<open>\<open>floorLog2 a\<close> is the binary exponent of a positive rational: \<open>2^e \<le> a < 2^(e+1)\<close>.\<close>

definition floorLog2 :: "real \<Rightarrow> int" where
  "floorLog2 a =
     (if 1 \<le> a then bits \<lfloor>a\<rfloor> - 1
      else - bits (\<lceil>1 / a\<rceil> - 1))"

definition roundHalfEven :: "real \<Rightarrow> int" where
  "roundHalfEven m =
     (let f = \<lfloor>m\<rfloor>; d = m - of_int f
      in if d < 1 / 2 then f
         else if 1 / 2 < d then f + 1
         else if even f then f else f + 1)"

text \<open>
  53 significant bits, the smallest subnormal is \<open>2^-1074\<close>, and a value that rounds to
  \<open>2^1024\<close> or more overflows to an infinity. A nonzero value that rounds to zero keeps
  its sign.
\<close>

definition toDouble :: "real \<Rightarrow> number" where
  "toDouble q =
     (if q = 0 then Fin 0
      else
        let a = \<bar>q\<bar>;
            p = max (floorLog2 a - 52) (- 1074);
            n = roundHalfEven (a / pow2 p);
            r = of_int n * pow2 p
        in if pow2 1024 \<le> r then signedInf (q < 0)
           else if n = 0 then signedZero (q < 0)
           else Fin (if q < 0 then - r else r))"

subsection \<open>Arithmetic, comparison and truthiness\<close>

definition num_sub :: "number \<Rightarrow> number \<Rightarrow> number" where
  "num_sub a b =
     (if a = NaN \<or> b = NaN then NaN
      else if isInf a \<and> isInf b then (if a = b then NaN else a)
      else if isInf a then a
      else if isInf b then signedInf (b = PosInf)
      else
        let r = mathVal a - mathVal b
        in if r = 0 then (if a = NegZero \<and> b = Fin 0 then NegZero else Fin 0)
           else toDouble r)"

definition num_mul :: "number \<Rightarrow> number \<Rightarrow> number" where
  "num_mul a b =
     (if a = NaN \<or> b = NaN then NaN
      else if (isInf a \<and> isZero b) \<or> (isZero a \<and> isInf b) then NaN
      else if isInf a \<or> isInf b then signedInf (isNegative a \<noteq> isNegative b)
      else if isZero a \<or> isZero b then signedZero (isNegative a \<noteq> isNegative b)
      else toDouble (mathVal a * mathVal b))"

definition num_div :: "number \<Rightarrow> number \<Rightarrow> number" where
  "num_div a b =
     (if a = NaN \<or> b = NaN then NaN
      else if (isInf a \<and> isInf b) \<or> (isZero a \<and> isZero b) then NaN
      else if isInf a \<or> isZero b then signedInf (isNegative a \<noteq> isNegative b)
      else if isInf b \<or> isZero a then signedZero (isNegative a \<noteq> isNegative b)
      else toDouble (mathVal a / mathVal b))"

definition num_neg :: "number \<Rightarrow> number" where
  "num_neg a =
     (case a of NaN \<Rightarrow> NaN | PosInf \<Rightarrow> NegInf | NegInf \<Rightarrow> PosInf
      | NegZero \<Rightarrow> Fin 0 | Fin q \<Rightarrow> (if q = 0 then NegZero else Fin (- q)))"

text \<open>The relational operators answer \<open>false\<close> whenever an operand is \<open>NaN\<close>.\<close>

fun rank :: "number \<Rightarrow> int" where
  "rank NegInf = - 1"
| "rank PosInf = 1"
| "rank _ = 0"

definition num_less :: "number \<Rightarrow> number \<Rightarrow> bool" where
  "num_less a b =
     (a \<noteq> NaN \<and> b \<noteq> NaN \<and>
      (rank a < rank b \<or> (rank a = rank b \<and> mathVal a < mathVal b)))"

definition num_greater :: "number \<Rightarrow> number \<Rightarrow> bool" where
  "num_greater a b = num_less b a"

definition num_ge :: "number \<Rightarrow> number \<Rightarrow> bool" where
  "num_ge a b = (a \<noteq> NaN \<and> b \<noteq> NaN \<and> \<not> num_less a b)"

definition strictEq :: "number \<Rightarrow> number \<Rightarrow> bool" where
  "strictEq a b =
     (a \<noteq> NaN \<and> b \<noteq> NaN \<and> rank a = rank b \<and> mathVal a = mathVal b)"

text \<open>\<open>ToBoolean\<close>: the falsy numbers are \<open>+0\<close>, \<open>-0\<close> and \<open>NaN\<close>.\<close>

definition truthy :: "number \<Rightarrow> bool" where
  "truthy x = (x \<noteq> NaN \<and> \<not> isZero x)"

text \<open>\<open>Math.round\<close>: the nearest integer, a tie going up; a zero result keeps the sign.\<close>

definition Math_round :: "number \<Rightarrow> number" where
  "Math_round x =
     (case x of
        Fin q \<Rightarrow> (let n = \<lfloor>q + 1 / 2\<rfloor> in if n = 0 then signedZero (q < 0) else Fin (of_int n))
      | _ \<Rightarrow> x)"

subsection \<open>Numbers to strings\<close>

text \<open>
  Strings are lists of characters. Only ASCII text is interpreted by the program
  (digits, signs, the missing-value marker), so a character is a byte.
\<close>

definition digitChar :: "int \<Rightarrow> char" where
  "digitChar d = ''0123456789'' ! nat d"

function digitsOf :: "int \<Rightarrow> string" where
  "digitsOf n = (if n < 10 then [digitChar n] else digitsOf (n div 10) @ [digitChar (n mod 10)])"
  by pat_completeness auto
termination
  by (relation "measure nat") auto

declare digitsOf.simps [simp del]

text \<open>\<open>ToString\<close> of an integer-valued number below \<open>10^21\<close> (a year, for instance).\<close>

definition intToString :: "int \<Rightarrow> string" where
  "intToString n = (if n < 0 then ''-'' @ digitsOf (- n) else digitsOf n)"

text \<open>
  \<open>Number::toString\<close> of a finite double \<open>x \<ge> 10^21\<close>: the shortest digit string \<open>s\<close>
  (of \<open>k\<close> digits) such that \<open>s * 10^(n-k)\<close> rounds to \<open>x\<close>, the closest to \<open>x\<close> when
  two qualify, printed in exponent notation. Seventeen digits always suffice for a
  double; the search is bounded by that.
\<close>

fun shortestDigits :: "real \<Rightarrow> int \<Rightarrow> int \<Rightarrow> nat \<Rightarrow> int \<times> int" where
  "shortestDigits x n k 0 = (\<lfloor>x / pow10 (n - k) + 1 / 2\<rfloor>, k)"
| "shortestDigits x n k (Suc fuel) =
     (let scale = pow10 (n - k);
          lo = \<lfloor>x / scale\<rfloor>;
          hi = lo + 1;
          okLo = (toDouble (of_int lo * scale) = Fin x);
          okHi = (toDouble (of_int hi * scale) = Fin x);
          dLo = x - of_int lo * scale;
          dHi = of_int hi * scale - x
      in if okLo \<and> okHi then
           (if dLo < dHi \<or> (dLo = dHi \<and> even lo) then (lo, k) else (hi, k))
         else if okLo then (lo, k)
         else if okHi then (hi, k)
         else shortestDigits x n (k + 1) fuel)"

definition stripZeros :: "string \<Rightarrow> string" where
  "stripZeros ds = rev (dropWhile (\<lambda>c. c = CHR ''0'') (rev ds))"

definition NumberToString_large :: "real \<Rightarrow> string" where
  "NumberToString_large x =
     (let n0 = int (length (digitsOf \<lfloor>x\<rfloor>));
          (s, k) = shortestDigits x n0 1 16;
          n = (if s = \<lfloor>pow10 k\<rfloor> then n0 + 1 else n0);
          ds = stripZeros (digitsOf s)
      in (if length ds = 1 then ds else take 1 ds @ ''.'' @ drop 1 ds)
         @ ''e+'' @ digitsOf (n - 1))"

text \<open>
  \<open>Number.prototype.toFixed(f)\<close>: a non-finite number prints as its name; a finite one
  prints its sign (for a negative value only), then the integer nearest to
  \<open>|x| * 10^f\<close> (the larger one at a tie) with the decimal point inserted; from \<open>10^21\<close>
  on, \<open>toFixed\<close> falls back to \<open>ToString\<close> and its exponent notation.
\<close>

definition fixedDigits :: "nat \<Rightarrow> real \<Rightarrow> string" where
  "fixedDigits f a =
     (let n = \<lfloor>a * 10 ^ f + 1 / 2\<rfloor>;
          m = digitsOf n;
          m0 = (if length m \<le> f then replicate (f + 1 - length m) (CHR ''0'') @ m else m);
          k = length m0
      in if f \<noteq> 0 then take (k - f) m0 @ ''.'' @ drop (k - f) m0 else m0)"

definition toFixed :: "nat \<Rightarrow> number \<Rightarrow> string" where
  "toFixed f x =
     (case x of
        NaN \<Rightarrow> ''NaN''
      | PosInf \<Rightarrow> ''Infinity''
      | NegInf \<Rightarrow> ''-Infinity''
      | _ \<Rightarrow>
        (let v = mathVal x;
             s = (if v < 0 then ''-'' else []);
             a = \<bar>v\<bar>
         in if 10 ^ 21 \<le> a then s @ NumberToString_large a
            else s @ fixedDigits f a))"

subsection \<open>Strings to numbers: \<open>parseFloat\<close>\<close>

definition isWhite :: "char \<Rightarrow> bool" where
  "isWhite c = (c \<in> set [CHR 0x09, CHR 0x0A, CHR 0x0B, CHR 0x0C, CHR 0x0D, CHR 0x20])"

definition isDigit :: "char \<Rightarrow> bool" where
  "isDigit c = (c \<in> set ''0123456789'')"

definition digitVal :: "char \<Rightarrow> int" where
  "digitVal c = of_char c - 48"

definition digitsVal :: "string \<Rightarrow> int" where
  "digitsVal ds = foldl (\<lambda>a c. 10 * a + digitVal c) 0 ds"

definition signPart :: "string \<Rightarrow> bool \<times> string" where
  "signPart s =
     (case s of
        [] \<Rightarrow> (False, s)
      | c # r \<Rightarrow> if c = CHR ''-'' then (True, r) else if c = CHR ''+'' then (False, r) else (False, s))"

definition exponentPart :: "string \<Rightarrow> int" where
  "exponentPart s =
     (case s of
        [] \<Rightarrow> 0
      | c # r \<Rightarrow>
          if c = CHR ''e'' \<or> c = CHR ''E'' then
            (let (neg, r') = signPart r; ds = takeWhile isDigit r'
             in if ds = [] then 0 else if neg then - digitsVal ds else digitsVal ds)
          else 0)"

text \<open>
  \<open>parseFloat\<close> skips leading white space and reads the longest prefix that is a
  decimal literal (sign, digits, fraction, exponent) or a signed \<open>Infinity\<close>; what follows
  is ignored (so the change string \<open>"+5.2%"\<close> reads as \<open>5.2\<close>), and a string with no such
  prefix reads as \<open>NaN\<close>.
\<close>

definition parseFloat :: "string \<Rightarrow> number" where
  "parseFloat str =
     (let (neg, s1) = signPart (dropWhile isWhite str)
      in if take 8 s1 = ''Infinity'' then signedInf neg
         else
           let ip = takeWhile isDigit s1;
               r1 = dropWhile isDigit s1;
               (fp, r2) = (case r1 of
                             [] \<Rightarrow> ([], r1)
                           | c # r \<Rightarrow> if c = CHR ''.''
                                      then (takeWhile isDigit r, dropWhile isDigit r)
                                      else ([], r1))
           in if ip = [] \<and> fp = [] then NaN
              else
                let m = of_int (digitsVal (ip @ fp)) * pow10 (exponentPart r2 - int (length fp))
                in if m = 0 then signedZero neg
                   else toDouble (if neg then - m else m))"

text \<open>\<open>ToIntegerOrInfinity\<close> of a finite number truncates towards zero.\<close>

definition truncToInt :: "real \<Rightarrow> int" where
  "truncToInt v = (if 0 \<le> v then \<lfloor>v\<rfloor> else \<lceil>v\<rceil>)"

section \<open>The host platform: dates\<close>

text \<open>
  A \<open>Date\<close> holds a time value: milliseconds since the epoch in UTC, or \<open>NaN\<close> for an
  invalid date (\<open>None\<close> below). The day and year arithmetic is that of ECMA-262
  (section "Date Objects"): \<open>Day\<close>, \<open>DayFromYear\<close>, \<open>YearFromTime\<close>, \<open>MonthFromTime\<close>,
  \<open>DateFromTime\<close>, \<open>MakeDay\<close>, \<open>MakeDate\<close>, \<open>TimeClip\<close>.
\<close>

definition msPerDay :: int where
  "msPerDay = 86400000"

definition Day :: "int \<Rightarrow> int" where
  "Day t = t div msPerDay"

definition TimeWithinDay :: "int \<Rightarrow> int" where
  "TimeWithinDay t = t mod msPerDay"

definition isLeap :: "int \<Rightarrow> bool" where
  "isLeap y = (y mod 4 = 0 \<and> (y mod 100 \<noteq> 0 \<or> y mod 400 = 0))"

definition DaysInYear :: "int \<Rightarrow> int" where
  "DaysInYear y = (if isLeap y then 366 else 365)"

definition DayFromYear :: "int \<Rightarrow> int" where
  "DayFromYear y =
     365 * (y - 1970) + (y - 1969) div 4 - (y - 1901) div 100 + (y - 1601) div 400"

text \<open>
  \<open>YearFromTime(t)\<close> is the largest year \<open>y\<close> with \<open>DayFromYear y \<le> Day t\<close>. It is computed
  from an estimate (400 years have 146097 days) that is off by at most one;
  \<open>YearFromDay_unique\<close> below proves that the result is that year.
\<close>

definition YearFromDay :: "int \<Rightarrow> int" where
  "YearFromDay d =
     (let y = 1970 + (400 * d) div 146097
      in if d < DayFromYear y then y - 1
         else if DayFromYear (y + 1) \<le> d then y + 1
         else y)"

definition YearFromTime :: "int \<Rightarrow> int" where
  "YearFromTime t = YearFromDay (Day t)"

definition DayWithinYear :: "int \<Rightarrow> int" where
  "DayWithinYear t = Day t - DayFromYear (YearFromTime t)"

text \<open>The day of the year on which month \<open>m\<close> (0 to 11) begins.\<close>

definition monthStart :: "bool \<Rightarrow> int \<Rightarrow> int" where
  "monthStart leap m =
     (let l = (if leap then 1 else 0)
      in if m \<le> 0 then 0
         else if m = 1 then 31
         else [59, 90, 120, 151, 181, 212, 243, 273, 304, 334] ! nat (min m 11 - 2) + l)"

definition MonthFromTime :: "int \<Rightarrow> int" where
  "MonthFromTime t =
     (let d = DayWithinYear t; l = (if isLeap (YearFromTime t) then 1 else 0)
      in if d < 31 then 0
         else if d < 59 + l then 1
         else if d < 90 + l then 2
         else if d < 120 + l then 3
         else if d < 151 + l then 4
         else if d < 181 + l then 5
         else if d < 212 + l then 6
         else if d < 243 + l then 7
         else if d < 273 + l then 8
         else if d < 304 + l then 9
         else if d < 334 + l then 10
         else 11)"

definition DateFromTime :: "int \<Rightarrow> int" where
  "DateFromTime t =
     DayWithinYear t - monthStart (isLeap (YearFromTime t)) (MonthFromTime t) + 1"

definition MakeDay :: "int \<Rightarrow> int \<Rightarrow> int \<Rightarrow> int" where
  "MakeDay year month dt =
     (let ym = year + month div 12; mn = month mod 12
      in DayFromYear ym + monthStart (isLeap ym) mn + dt - 1)"

definition MakeDate :: "int \<Rightarrow> int \<Rightarrow> int" where
  "MakeDate day time = day * msPerDay + time"

definition TimeClip :: "int \<Rightarrow> int option" where
  "TimeClip t = (if 8640000000000000 < \<bar>t\<bar> then None else Some t)"

definition daysInMonth :: "int \<Rightarrow> int \<Rightarrow> int" where
  "daysInMonth y m =
     (if m = 2 then (if isLeap y then 29 else 28)
      else if m = 4 \<or> m = 6 \<or> m = 9 \<or> m = 11 then 30
      else 31)"

text \<open>
  The date-only form \<open>YYYY-MM-DD\<close> of the ECMA-262 date-time string format, which is what
  the data provider sends: four, two and two digits naming a day of the calendar.
\<close>

definition isoDateParts :: "string \<Rightarrow> (int \<times> int \<times> int) option" where
  "isoDateParts s =
     (if length s = 10 \<and> s ! 4 = CHR ''-'' \<and> s ! 7 = CHR ''-''
         \<and> list_all isDigit (take 4 s) \<and> list_all isDigit (take 2 (drop 5 s))
         \<and> list_all isDigit (drop 8 s)
      then
        let y = digitsVal (take 4 s); m = digitsVal (take 2 (drop 5 s)); d = digitsVal (drop 8 s)
        in if 1 \<le> m \<and> m \<le> 12 \<and> 1 \<le> d \<and> d \<le> daysInMonth y m then Some (y, m, d) else None
      else None)"

section \<open>The host platform: environment\<close>

text \<open>
  What the program reads from its surroundings is made a parameter, the \<open>host\<close>:
  \<^item> \<open>FRED_API_KEY\<close>: the environment variable (\<open>None\<close> when unset);
  \<open>fetch\<close>: the answer of the network to a request;
  \<^item> \<open>now\<close>: the clock read by \<open>new Date()\<close>; \<open>LocalTZA t isUTC\<close>: the offset of the local
  time zone, in milliseconds, at time \<open>t\<close> (a UTC time when \<open>isUTC\<close>, a local one otherwise);
  \<^item> \<open>legacyDateParse\<close>: what \<open>new Date(s)\<close> makes of a string that is not in the
  date-only form above, which ECMA-262 leaves to the implementation;
  \<^item> \<open>toLocaleString_enUS\<close>: \<open>Number.prototype.toLocaleString('en-US')\<close>, provided by the
  host's internationalisation data.

  A JavaScript error value is its class name and its message. The body of a response
  is untyped JSON: \<open>resp_observations\<close> is \<open>None\<close> when the body has no such property.
\<close>

datatype jsError = JsError (err_name: string) (err_message: string)

record FREDObservation =
  obs_date :: string
  obs_value :: string

record FREDResponse =
  resp_observations :: "FREDObservation list option"

record Response =
  ok :: bool
  status :: int
  statusText :: string
  json :: "jsError + FREDResponse"

type_synonym request = "(string \<times> string) list"

record host =
  FRED_API_KEY :: "string option"
  fetch :: "request \<Rightarrow> jsError + Response"
  now :: int
  LocalTZA :: "int \<Rightarrow> bool \<Rightarrow> int"
  legacyDateParse :: "string \<Rightarrow> int option"
  toLocaleString_enUS :: "number \<Rightarrow> string"

definition LocalTime :: "host \<Rightarrow> int \<Rightarrow> int" where
  "LocalTime h t = t + LocalTZA h t True"

definition UTC :: "host \<Rightarrow> int \<Rightarrow> int" where
  "UTC h t = t - LocalTZA h t False"

text \<open>\<open>new Date(s)\<close>, and the getters and setters the program calls on a \<open>Date\<close>.\<close>

definition Date_new :: "host \<Rightarrow> string \<Rightarrow> int option" where
  "Date_new h s =
     (case isoDateParts s of
        Some (y, m, d) \<Rightarrow> TimeClip (MakeDate (MakeDay y (m - 1) d) 0)
      | None \<Rightarrow> legacyDateParse h s)"

definition getMonth :: "host \<Rightarrow> int option \<Rightarrow> int option" where
  "getMonth h d = (case d of None \<Rightarrow> None | Some t \<Rightarrow> Some (MonthFromTime (LocalTime h t)))"

definition getFullYear :: "host \<Rightarrow> int option \<Rightarrow> int option" where
  "getFullYear h d = (case d of None \<Rightarrow> None | Some t \<Rightarrow> Some (YearFromTime (LocalTime h t)))"

definition setFullYear :: "host \<Rightarrow> int \<Rightarrow> int \<Rightarrow> int option" where
  "setFullYear h tv y =
     (let t = LocalTime h tv
      in TimeClip (UTC h (MakeDate (MakeDay y (MonthFromTime t) (DateFromTime t)) (TimeWithinDay t))))"

definition setMonth :: "host \<Rightarrow> int \<Rightarrow> number \<Rightarrow> int option" where
  "setMonth h tv m =
     (if \<not> isFinite m then None
      else
        let t = LocalTime h tv
        in TimeClip (UTC h (MakeDate (MakeDay (YearFromTime t) (truncToInt (mathVal m)) (DateFromTime t))
                                     (TimeWithinDay t))))"

definition pad :: "nat \<Rightarrow> int \<Rightarrow> string" where
  "pad w n = (let ds = digitsOf n in replicate (w - length ds) (CHR ''0'') @ ds)"

text \<open>\<open>d.toISOString().split('T')[0]\<close>; \<open>toISOString\<close> raises a \<open>RangeError\<close> on an invalid date.\<close>

definition isoDateString :: "int option \<Rightarrow> jsError + string" where
  "isoDateString d =
     (case d of
        None \<Rightarrow> Inl (JsError ''RangeError'' ''Invalid time value'')
      | Some t \<Rightarrow>
          let y = YearFromTime t;
              ys = (if 0 \<le> y \<and> y \<le> 9999 then pad 4 y
                    else (if y < 0 then ''-'' else ''+'') @ pad 6 \<bar>y\<bar>)
          in Inr (ys @ ''-'' @ pad 2 (MonthFromTime t + 1) @ ''-'' @ pad 2 (DateFromTime t)))"

section \<open>The data model\<close>

record ChartDataPoint =
  cdp_date :: string
  cdp_value :: number
  cdp_label :: "string option"

datatype changeType = positive | negative | neutral

record HousingMetric =
  m_id :: string
  m_title :: string
  m_value :: string
  m_change :: string
  m_changeType :: changeType
  m_description :: string

record HousingData =
  metrics :: "HousingMetric list"
  housePriceIndex :: "ChartDataPoint list"
  activeListings :: "ChartDataPoint list"
  buildingPermits :: "ChartDataPoint list"
  rentCPI :: "ChartDataPoint list"
  unemploymentRate :: "ChartDataPoint list"

definition FRED_BASE_URL :: string where
  "FRED_BASE_URL = ''https://api.stlouisfed.org/fred/series/observations''"

definition housePriceIndex_id :: string where
  "housePriceIndex_id = ''ATNHPIUS26420Q''"

definition activeListings_id :: string where
  "activeListings_id = ''ACTLISCOU26420''"

definition buildingPermits_id :: string where
  "buildingPermits_id = ''HOUS448BPPRIV''"

definition rentCPI_id :: string where
  "rentCPI_id = ''CUUSA318SEHA''"

definition unemploymentRate_id :: string where
  "unemploymentRate_id = ''HOUS448URN''"

section \<open>\<open>fetchFREDSeries\<close>\<close>

text \<open>
  The request is the list of query parameters appended to \<open>FRED_BASE_URL\<close>, in the order
  the code inserts them. The function's result is the settled promise (\<open>Inl\<close> the
  rejection) together with the requests it sent to the network, so that "before any
  network call" can be stated. Logging (\<open>console.error\<close>) is not modelled.
\<close>

definition configError :: jsError where
  "configError = JsError ''Error'' ''FRED_API_KEY environment variable is not set''"

definition upstreamError :: "int \<Rightarrow> string \<Rightarrow> jsError" where
  "upstreamError st txt = JsError ''Error'' (''FRED API error: '' @ intToString st @ '' '' @ txt)"

text \<open>
  The date range of a request with a (truthy) limit: \<open>startDate.setMonth(startDate.getMonth()
  - limit)\<close>, then both dates through \<open>toISOString\<close>.
\<close>

definition dateRange :: "host \<Rightarrow> number \<Rightarrow> jsError + (string \<times> string)" where
  "dateRange h limit =
     (let endDate = Some (now h);
          month = (case getMonth h (Some (now h)) of Some m \<Rightarrow> Fin (of_int m) | None \<Rightarrow> NaN);
          startDate = setMonth h (now h) (num_sub month limit)
      in case isoDateString startDate of
           Inl e \<Rightarrow> Inl e
         | Inr s \<Rightarrow> (case isoDateString endDate of Inl e \<Rightarrow> Inl e | Inr e \<Rightarrow> Inr (s, e)))"

definition fetchFREDSeries ::
  "host \<Rightarrow> string \<Rightarrow> number option \<Rightarrow> (jsError + FREDResponse) \<times> request list" where
  "fetchFREDSeries h seriesId limit =
     (case FRED_API_KEY h of
        None \<Rightarrow> (Inl configError, [])
      | Some apiKey \<Rightarrow>
          if apiKey = [] then (Inl configError, [])
          else
            let params = [(''series_id'', seriesId), (''api_key'', apiKey), (''file_type'', ''json''),
                          (''sort_order'', ''asc''), (''units'', ''lin'')];
                ranged = (case limit of
                            None \<Rightarrow> Inr params
                          | Some l \<Rightarrow>
                              if truthy l then
                                (case dateRange h l of
                                   Inl e \<Rightarrow> Inl e
                                 | Inr (s, e) \<Rightarrow>
                                     Inr (params @ [(''observation_start'', s), (''observation_end'', e)]))
                              else Inr params)
            in case ranged of
                 Inl e \<Rightarrow> (Inl e, [])
               | Inr ps \<Rightarrow>
                   (case fetch h ps of
                      Inl e \<Rightarrow> (Inl e, [ps])
                    | Inr response \<Rightarrow>
                        if \<not> ok response
                        then (Inl (upstreamError (status response) (statusText response)), [ps])
                        else (json response, [ps])))"

section \<open>\<open>transformFREDData\<close>\<close>

definition months :: "string list" where
  "months = [''Jan'', ''Feb'', ''Mar'', ''Apr'', ''May'', ''Jun'',
             ''Jul'', ''Aug'', ''Sep'', ''Oct'', ''Nov'', ''Dec'']"

text \<open>The filter \<open>obs.value !== '.' && obs.value !== ''\<close>.\<close>

definition notMissing :: "FREDObservation \<Rightarrow> bool" where
  "notMissing obs = (obs_value obs \<noteq> ''.'' \<and> obs_value obs \<noteq> [])"

text \<open>
  \<open>Array.prototype.slice(start)\<close>: the start is truncated to an integer (\<open>NaN\<close> counts as
  0), a negative one counts from the end, and both are clamped to the array.
\<close>

definition slice :: "'a list \<Rightarrow> number \<Rightarrow> 'a list" where
  "slice xs start =
     (let len = int (length xs);
          k = (case start of
                 NaN \<Rightarrow> 0
               | PosInf \<Rightarrow> len
               | NegInf \<Rightarrow> 0
               | _ \<Rightarrow> (let r = truncToInt (mathVal start)
                       in if r < 0 then max (len + r) 0 else min r len))
      in drop (nat k) xs)"

text \<open>The label \<open>`${months[date.getMonth()]} ${date.getFullYear()}`\<close> of a date string.\<close>

definition monthYear :: "host \<Rightarrow> string \<Rightarrow> string" where
  "monthYear h s =
     (let date = Date_new h s
      in (case getMonth h date of None \<Rightarrow> ''undefined'' | Some m \<Rightarrow> months ! nat m)
         @ '' ''
         @ (case getFullYear h date of None \<Rightarrow> ''NaN'' | Some y \<Rightarrow> intToString y))"

definition transformFREDData ::
  "host \<Rightarrow> FREDObservation list \<Rightarrow> number option \<Rightarrow> ChartDataPoint list" where
  "transformFREDData h observations limit =
     (let validObservations = filter notMissing observations;
          dataToTransform = (case limit of
                               None \<Rightarrow> validObservations
                             | Some l \<Rightarrow> if truthy l then slice validObservations (num_neg l)
                                         else validObservations)
      in map (\<lambda>obs. \<lparr>cdp_date = monthYear h (obs_date obs),
                      cdp_value = parseFloat (obs_value obs),
                      cdp_label = None\<rparr>)
             dataToTransform)"

section \<open>Percentage change and the metric summaries\<close>

definition calculatePercentageChange :: "number \<Rightarrow> number \<Rightarrow> string" where
  "calculatePercentageChange oldValue newValue =
     (if strictEq oldValue (Fin 0) then ''+0.0%''
      else
        let change = num_mul (num_div (num_sub newValue oldValue) oldValue) (Fin 100);
            sign = (if num_ge change (Fin 0) then ''+'' else [])
        in sign @ toFixed 1 change @ ''%'')"

definition formatNumber :: "host \<Rightarrow> number \<Rightarrow> string" where
  "formatNumber h v = toLocaleString_enUS h v"

text \<open>
  \<open>getLatestValue\<close>: the loop \<open>for (i = length - 1; i >= 0; i--)\<close>; \<open>latestFrom obs n\<close> is
  the loop with \<open>n\<close> observations still to visit, the next one at index \<open>n - 1\<close>. \<open>None\<close> is
  the \<open>null\<close> result.
\<close>

fun latestFrom :: "FREDObservation list \<Rightarrow> nat \<Rightarrow> number option" where
  "latestFrom obs 0 = None"
| "latestFrom obs (Suc i) =
     (if obs_value (obs ! i) \<noteq> ''.'' \<and> obs_value (obs ! i) \<noteq> []
      then Some (parseFloat (obs_value (obs ! i)))
      else latestFrom obs i)"

definition getLatestValue :: "FREDObservation list \<Rightarrow> number option" where
  "getLatestValue observations = latestFrom observations (length observations)"

text \<open>Truthiness of a \<open>number | null\<close>: \<open>null\<close>, \<open>0\<close>, \<open>-0\<close> and \<open>NaN\<close> are falsy.\<close>

definition truthyOpt :: "number option \<Rightarrow> bool" where
  "truthyOpt v = (case v of None \<Rightarrow> False | Some x \<Rightarrow> truthy x)"

text \<open>
  The target of the year-over-year comparison: \<open>new Date()\<close> with
  \<open>setFullYear(getFullYear() - 1)\<close>.
\<close>

definition targetDate :: "host \<Rightarrow> int option" where
  "targetDate h = setFullYear h (now h) (YearFromTime (LocalTime h (now h)) - 1)"

text \<open>\<open>Math.abs(obsDate.getTime() - targetDate.getTime()) < 45 * 24 * 60 * 60 * 1000\<close>.\<close>

definition within45Days :: "int option \<Rightarrow> int option \<Rightarrow> bool" where
  "within45Days obsDate target =
     (case (obsDate, target) of
        (Some a, Some b) \<Rightarrow> \<bar>a - b\<bar> < 45 * 24 * 60 * 60 * 1000
      | _ \<Rightarrow> False)"

text \<open>The \<open>for ... of\<close> loop with its \<open>break\<close>: the value of the first observation accepted.\<close>

fun yearAgoValue :: "host \<Rightarrow> int option \<Rightarrow> FREDObservation list \<Rightarrow> number option" where
  "yearAgoValue h target [] = None"
| "yearAgoValue h target (obs # rest) =
     (if obs_value obs \<noteq> ''.'' \<and> obs_value obs \<noteq> [] then
        (if within45Days (Date_new h (obs_date obs)) target
         then Some (parseFloat (obs_value obs))
         else yearAgoValue h target rest)
      else yearAgoValue h target rest)"

definition getYearOverYearChange :: "host \<Rightarrow> FREDObservation list \<Rightarrow> string" where
  "getYearOverYearChange h observations =
     (case getLatestValue observations of
        None \<Rightarrow> ''+0.0%''
      | Some latest \<Rightarrow>
          if \<not> truthy latest then ''+0.0%''
          else
            (case yearAgoValue h (targetDate h) observations of
               None \<Rightarrow> ''+0.0%''
             | Some v \<Rightarrow> if \<not> truthy v then ''+0.0%'' else calculatePercentageChange v latest))"

definition getMonthOverMonthChange :: "FREDObservation list \<Rightarrow> string" where
  "getMonthOverMonthChange observations =
     (let validObs = filter notMissing observations
      in if length validObs < 2 then ''+0.0%''
         else
           let latest = parseFloat (obs_value (validObs ! (length validObs - 1)));
               previous = parseFloat (obs_value (validObs ! (length validObs - 2)))
           in calculatePercentageChange previous latest)"

definition getChangeType :: "string \<Rightarrow> string \<Rightarrow> changeType" where
  "getChangeType change metricId =
     (let v = parseFloat change
      in if strictEq v (Fin 0) then neutral
         else if metricId = ''unemployment'' then (if num_less v (Fin 0) then positive else negative)
         else if metricId = ''inventory'' then (if num_greater v (Fin 0) then positive else negative)
         else (if num_greater v (Fin 0) then positive else negative))"

section \<open>\<open>fetchAllHousingData\<close>\<close>

text \<open>
  \<open>Promise.allSettled\<close> keeps each outcome; a rejected one stands for no observations. A
  fulfilled body without \<open>observations\<close> makes the first use of the list raise a
  \<open>TypeError\<close> inside the \<open>try\<close> block, which the \<open>catch\<close> turns into the fallback payload.
\<close>

definition settledObservations :: "jsError + FREDResponse \<Rightarrow> jsError + FREDObservation list" where
  "settledObservations r =
     (case r of
        Inl e \<Rightarrow> Inr []
      | Inr v \<Rightarrow>
          (case resp_observations v of
             None \<Rightarrow> Inl (JsError ''TypeError'' ''Cannot read properties of undefined'')
           | Some obs \<Rightarrow> Inr obs))"

definition metric ::
  "string \<Rightarrow> string \<Rightarrow> string \<Rightarrow> string \<Rightarrow> string \<Rightarrow> HousingMetric" where
  "metric i t v c d =
     \<lparr>m_id = i, m_title = t, m_value = v, m_change = c,
      m_changeType = getChangeType c i, m_description = d\<rparr>"

definition assemble ::
  "host \<Rightarrow> FREDObservation list \<Rightarrow> FREDObservation list \<Rightarrow> FREDObservation list \<Rightarrow>
   FREDObservation list \<Rightarrow> FREDObservation list \<Rightarrow> HousingData" where
  "assemble h hpiObs inventoryObs permitsObs rentObs unemploymentObs =
     (let hpiLatest = getLatestValue hpiObs;
          hpiChange = getYearOverYearChange h hpiObs;
          inventoryLatest = getLatestValue inventoryObs;
          inventoryChange = getMonthOverMonthChange inventoryObs;
          permitsLatest = getLatestValue permitsObs;
          permitsChange = getMonthOverMonthChange permitsObs;
          rentLatest = getLatestValue rentObs;
          rentChange = getYearOverYearChange h rentObs;
          unemploymentLatest = getLatestValue unemploymentObs;
          unemploymentChange = getMonthOverMonthChange unemploymentObs
      in \<lparr>metrics =
            [metric ''hpi'' ''House Price Index''
               (if truthyOpt hpiLatest then toFixed 1 (the hpiLatest) else ''N/A'')
               hpiChange ''Year-over-year change'',
             metric ''inventory'' ''Active Listings''
               (if truthyOpt inventoryLatest
                then formatNumber h (Math_round (the inventoryLatest)) else ''N/A'')
               inventoryChange ''Month-over-month change'',
             metric ''rent'' ''Rental CPI''
               (if truthyOpt rentLatest then toFixed 1 (the rentLatest) else ''N/A'')
               rentChange ''Year-over-year change'',
             metric ''permits'' ''Building Permits''
               (if truthyOpt permitsLatest
                then formatNumber h (Math_round (the permitsLatest)) else ''N/A'')
               permitsChange ''Monthly permits issued'',
             metric ''unemployment'' ''Unemployment Rate''
               (if truthyOpt unemploymentLatest
                then toFixed 1 (the unemploymentLatest) @ ''%'' else ''N/A'')
               unemploymentChange ''Month-over-month change''],
          housePriceIndex = transformFREDData h hpiObs None,
          activeListings = transformFREDData h inventoryObs None,
          buildingPermits = transformFREDData h permitsObs None,
          rentCPI = transformFREDData h rentObs None,
          unemploymentRate = transformFREDData h unemploymentObs None\<rparr>)"

definition fallbackMetric :: "string \<Rightarrow> string \<Rightarrow> string \<Rightarrow> HousingMetric" where
  "fallbackMetric i t d =
     \<lparr>m_id = i, m_title = t, m_value = ''N/A'', m_change = ''+0.0%'',
      m_changeType = neutral, m_description = d\<rparr>"

definition fallbackData :: HousingData where
  "fallbackData =
     \<lparr>metrics =
        [fallbackMetric ''hpi'' ''House Price Index'' ''Year-over-year change'',
         fallbackMetric ''inventory'' ''Active Listings'' ''Month-over-month change'',
         fallbackMetric ''rent'' ''Rental CPI'' ''Year-over-year change'',
         fallbackMetric ''permits'' ''Building Permits'' ''Monthly permits issued'',
         fallbackMetric ''unemployment'' ''Unemployment Rate'' ''Month-over-month change''],
      housePriceIndex = [], activeListings = [], buildingPermits = [],
      rentCPI = [], unemploymentRate = []\<rparr>"

text \<open>
  The five observation lists, in the order the \<open>try\<close> block first uses them; the first
  one that raises ends the block.
\<close>

definition tryBlock :: "host \<Rightarrow> jsError + HousingData" where
  "tryBlock h =
     (case settledObservations (fst (fetchFREDSeries h housePriceIndex_id None)) of
        Inl e \<Rightarrow> Inl e
      | Inr hpiObs \<Rightarrow>
     (case settledObservations (fst (fetchFREDSeries h activeListings_id None)) of
        Inl e \<Rightarrow> Inl e
      | Inr inventoryObs \<Rightarrow>
     (case settledObservations (fst (fetchFREDSeries h buildingPermits_id None)) of
        Inl e \<Rightarrow> Inl e
      | Inr permitsObs \<Rightarrow>
     (case settledObservations (fst (fetchFREDSeries h rentCPI_id None)) of
        Inl e \<Rightarrow> Inl e
      | Inr rentObs \<Rightarrow>
     (case settledObservations (fst (fetchFREDSeries h unemploymentRate_id None)) of
        Inl e \<Rightarrow> Inl e
      | Inr unemploymentObs \<Rightarrow>
          Inr (assemble h hpiObs inventoryObs permitsObs rentObs unemploymentObs))))))"

text \<open>The result is the settled promise of \<open>fetchAllHousingData\<close>: \<open>Inl\<close> would be a rejection.\<close>

definition fetchAllHousingData :: "host \<Rightarrow> jsError + HousingData" where
  "fetchAllHousingData h =
     (case tryBlock h of
        Inr payload \<Rightarrow> Inr payload
      | Inl error \<Rightarrow> Inr fallbackData)"

section \<open>Notions of the specification\<close>

text \<open>
  The sign of a number as the specification speaks of it: a negative change, a positive
  change. Neither holds of a zero or of \<open>NaN\<close>.
\<close>

definition belowZero :: "number \<Rightarrow> bool" where
  "belowZero v = (case v of NegInf \<Rightarrow> True | Fin q \<Rightarrow> q < 0 | _ \<Rightarrow> False)"

definition aboveZero :: "number \<Rightarrow> bool" where
  "aboveZero v = (case v of PosInf \<Rightarrow> True | Fin q \<Rightarrow> 0 < q | _ \<Rightarrow> False)"

text \<open>
  "Formatted to one decimal place": the decimal numeral, with one digit after the point,
  of the tenth nearest to a non-negative value (the upper one at a tie).
\<close>

definition oneDecimal :: "real \<Rightarrow> string" where
  "oneDecimal a =
     (let n = \<lfloor>a * 10 + 1 / 2\<rfloor> in digitsOf (n div 10) @ ''.'' @ [digitChar (n mod 10)])"



text \<open>
  A series has failed when its fetch was rejected, and is empty when it was fulfilled
  with no observations. A metric is "not available" when it shows \<open>N/A\<close>, no change, and
  the neutral classification.
\<close>

definition failedOrEmpty :: "host \<Rightarrow> string \<Rightarrow> bool" where
  "failedOrEmpty h seriesId =
     (case fst (fetchFREDSeries h seriesId None) of
        Inl e \<Rightarrow> True
      | Inr v \<Rightarrow> resp_observations v = Some [])"

definition notAvailable :: "HousingMetric \<Rightarrow> bool" where
  "notAvailable m = (m_value m = ''N/A'' \<and> m_change m = ''+0.0%'' \<and> m_changeType m = neutral)"

section \<open>Example inputs\<close>

text \<open>
  The observation list of the repository's transformer test, a list spanning a year, and
  a host in the manner of the repository's partial-failure test: the listings request
  fails, the permits series holds the single value 0, the price index holds the test
  list, the other series are empty. Its clock reads 2024-06-15T00:00:00Z and its time
  zone is UTC; \<open>centralHost\<close> is the same host six hours west of UTC.
\<close>

definition exampleSeries :: "FREDObservation list" where
  "exampleSeries =
     [\<lparr>obs_date = ''2023-01-01'', obs_value = ''100.5''\<rparr>,
      \<lparr>obs_date = ''2023-02-01'', obs_value = ''101.2''\<rparr>,
      \<lparr>obs_date = ''2023-03-01'', obs_value = ''.''\<rparr>,
      \<lparr>obs_date = ''2023-04-01'', obs_value = ''102.0''\<rparr>]"



definition zeroSeries :: "FREDObservation list" where
  "zeroSeries = [\<lparr>obs_date = ''2024-01-01'', obs_value = ''0''\<rparr>]"

definition okResponse :: "FREDObservation list \<Rightarrow> jsError + Response" where
  "okResponse obs =
     Inr \<lparr>ok = True, status = 200, statusText = ''OK'',
          json = Inr \<lparr>resp_observations = Some obs\<rparr>\<rparr>"

definition exampleFetch :: "request \<Rightarrow> jsError + Response" where
  "exampleFetch req =
     (if map_of req ''series_id'' = Some activeListings_id then Inl (JsError ''Error'' ''API Error'')
      else if map_of req ''series_id'' = Some buildingPermits_id then okResponse zeroSeries
      else if map_of req ''series_id'' = Some housePriceIndex_id then okResponse exampleSeries
      else okResponse [])"

definition exampleHost :: host where
  "exampleHost =
     \<lparr>FRED_API_KEY = Some ''demo'', fetch = exampleFetch, now = 1718409600000,
      LocalTZA = (\<lambda>t isUTC. 0), legacyDateParse = (\<lambda>s. None),
      toLocaleString_enUS = toFixed 0\<rparr>"

definition centralHost :: host where
  "centralHost = exampleHost\<lparr>LocalTZA := (\<lambda>t isUTC. - 21600000)\<rparr>"

definition unconfiguredHost :: host where
  "unconfiguredHost = exampleHost\<lparr>FRED_API_KEY := None\<rparr>"


section \<open>Properties of the number model\<close>

lemma truthy_simps [simp]:
  "truthy (Fin q) = (q \<noteq> 0)" "\<not> truthy NaN" "\<not> truthy NegZero" "truthy PosInf" "truthy NegInf"
  by (simp_all add: truthy_def isZero_def)

lemma strictEq_zero: "strictEq v (Fin 0) = isZero v"
  by (cases v) (simp_all add: strictEq_def isZero_def)

lemma num_less_zero: "num_less v (Fin 0) = belowZero v"
  by (cases v) (simp_all add: num_less_def belowZero_def)

lemma num_greater_zero: "num_greater v (Fin 0) = aboveZero v"
  by (cases v) (simp_all add: num_greater_def num_less_def aboveZero_def)


lemma sign_exclusive:
  "\<not> (belowZero v \<and> aboveZero v)" "\<not> (belowZero v \<and> isZero v)" "\<not> (aboveZero v \<and> isZero v)"
  by (cases v; simp add: belowZero_def aboveZero_def isZero_def)+

lemma bits_pos: "0 < n \<Longrightarrow> bits n = 1 + bits (n div 2)"
  by (subst bits.simps) simp

lemma bits_nonpos: "n \<le> 0 \<Longrightarrow> bits n = 0"
  by (subst bits.simps) simp

lemma digitsOf_small: "n < 10 \<Longrightarrow> digitsOf n = [digitChar n]"
  by (subst digitsOf.simps) simp

lemma digitsOf_large: "10 \<le> n \<Longrightarrow> digitsOf n = digitsOf (n div 10) @ [digitChar (n mod 10)]"
  by (subst digitsOf.simps) simp

lemma truncToInt_of_int [simp]: "truncToInt (of_int k) = k"
  by (simp add: truncToInt_def)

section \<open>The transformer\<close>

lemma slice_Nil [simp]: "slice [] start = []"
  by (simp add: slice_def)

lemma slice_neg_count:
  assumes "0 < n"
  shows "slice xs (Fin (- real n)) = drop (length xs - n) xs"
proof -
  have "truncToInt (- real n) = - int n"
    using truncToInt_of_int [of "- int n"] by simp
  moreover have "nat (max (int (length xs) - int n) 0) = length xs - n"
    by simp
  ultimately show ?thesis
    using assms by (simp add: slice_def)
qed

lemma transform_append:
  "transformFREDData h (xs @ ys) None = transformFREDData h xs None @ transformFREDData h ys None"
  by (simp add: transformFREDData_def)

lemma transform_concat:
  "transformFREDData h observations None
     = concat (map (\<lambda>obs. transformFREDData h [obs] None) observations)"
proof (induction observations)
  case Nil
  show ?case by (simp add: transformFREDData_def)
next
  case (Cons obs rest)
  have "transformFREDData h (obs # rest) None
          = transformFREDData h [obs] None @ transformFREDData h rest None"
    using transform_append [of h "[obs]" rest] by simp
  with Cons show ?case by simp
qed

lemma transform_all_missing:
  assumes "\<forall>obs \<in> set observations. obs_value obs = ''.'' \<or> obs_value obs = []"
  shows "transformFREDData h observations limit = []"
proof -
  from assms have "filter notMissing observations = []"
    by (auto simp: notMissing_def filter_empty_conv)
  then show ?thesis
    by (simp add: transformFREDData_def split: option.split)
qed

text \<open>
  C8. With no limit, every observation contributes on its own and in its place: nothing
  if its value is the missing-marker \<open>.\<close> or the empty string, and exactly one point
  otherwise. A list of missing-markers only gives the empty sequence, whatever the limit.
\<close>

theorem transformFREDData_removes_missing:
  "transformFREDData h observations None
     = concat (map (\<lambda>obs. transformFREDData h [obs] None) observations)
   \<and> (\<forall>obs. obs_value obs = ''.'' \<or> obs_value obs = [] \<longrightarrow> transformFREDData h [obs] None = [])
   \<and> (\<forall>obs. obs_value obs \<noteq> ''.'' \<and> obs_value obs \<noteq> [] \<longrightarrow>
         transformFREDData h [obs] None
           = [\<lparr>cdp_date = monthYear h (obs_date obs), cdp_value = parseFloat (obs_value obs),
               cdp_label = None\<rparr>])
   \<and> ((\<forall>obs \<in> set observations. obs_value obs = ''.'') \<longrightarrow>
         transformFREDData h observations limit = [])"
proof (intro conjI allI impI)
  show "transformFREDData h observations None
          = concat (map (\<lambda>obs. transformFREDData h [obs] None) observations)"
    by (rule transform_concat)
next
  fix obs :: FREDObservation assume "obs_value obs = ''.'' \<or> obs_value obs = []"
  then show "transformFREDData h [obs] None = []"
    by (intro transform_all_missing) simp
next
  fix obs :: FREDObservation assume "obs_value obs \<noteq> ''.'' \<and> obs_value obs \<noteq> []"
  then show "transformFREDData h [obs] None
           = [\<lparr>cdp_date = monthYear h (obs_date obs), cdp_value = parseFloat (obs_value obs),
               cdp_label = None\<rparr>]"
    by (simp add: transformFREDData_def notMissing_def)
next
  assume "\<forall>obs \<in> set observations. obs_value obs = ''.''"
  then show "transformFREDData h observations limit = []"
    by (intro transform_all_missing) simp
qed

theorem transformFREDData_removes_missing_witness:
  "transformFREDData exampleHost exampleSeries None
     = concat (map (\<lambda>obs. transformFREDData exampleHost [obs] None) exampleSeries)
   \<and> obs_value (exampleSeries ! 2) = ''.''
   \<and> transformFREDData exampleHost [exampleSeries ! 2] None = []
   \<and> obs_value (exampleSeries ! 3) \<noteq> ''.'' \<and> obs_value (exampleSeries ! 3) \<noteq> []
   \<and> transformFREDData exampleHost [exampleSeries ! 3] None
       = [\<lparr>cdp_date = monthYear exampleHost (obs_date (exampleSeries ! 3)),
           cdp_value = parseFloat (obs_value (exampleSeries ! 3)), cdp_label = None\<rparr>]
   \<and> transformFREDData exampleHost [exampleSeries ! 2, exampleSeries ! 2] (Some (Fin 24)) = []"
proof -
  have missing: "obs_value (exampleSeries ! 2) = ''.''"
    and present: "obs_value (exampleSeries ! 3) \<noteq> ''.'' \<and> obs_value (exampleSeries ! 3) \<noteq> []"
    by (simp_all add: exampleSeries_def)
  have all: "\<forall>obs \<in> set [exampleSeries ! 2, exampleSeries ! 2]. obs_value obs = ''.''"
    using missing by simp
  from transformFREDData_removes_missing [of exampleHost exampleSeries]
       transformFREDData_removes_missing
         [of exampleHost "[exampleSeries ! 2, exampleSeries ! 2]" "Some (Fin 24)"]
       missing present all
  show ?thesis by blast
qed

text \<open>
  C7. A positive count \<open>n\<close> as limit gives the points of the last \<open>n\<close> observations that
  are not missing (of all of them when there are fewer), in the order of the list; with
  no limit it gives the points of all observations that are not missing.
\<close>

theorem transformFREDData_last_n:
  assumes "0 < n"
  shows "transformFREDData h observations (Some (Fin (real n)))
           = map (\<lambda>obs. \<lparr>cdp_date = monthYear h (obs_date obs),
                           cdp_value = parseFloat (obs_value obs), cdp_label = None\<rparr>)
               (rev (take n (rev
                  (filter (\<lambda>obs. obs_value obs \<noteq> ''.'' \<and> obs_value obs \<noteq> []) observations))))
         \<and> transformFREDData h observations None
           = map (\<lambda>obs. \<lparr>cdp_date = monthYear h (obs_date obs),
                           cdp_value = parseFloat (obs_value obs), cdp_label = None\<rparr>)
               (filter (\<lambda>obs. obs_value obs \<noteq> ''.'' \<and> obs_value obs \<noteq> []) observations)"
proof -
  have "num_neg (Fin (real n)) = Fin (- real n)"
    using assms by (simp add: num_neg_def)
  moreover have "rev (take n (rev ys)) = drop (length ys - n) ys" for ys :: "FREDObservation list"
    by (simp add: rev_take)
  moreover have "notMissing = (\<lambda>obs. obs_value obs \<noteq> ''.'' \<and> obs_value obs \<noteq> [])"
    by (simp add: notMissing_def fun_eq_iff)
  ultimately show ?thesis
    using assms by (simp add: transformFREDData_def Let_def slice_neg_count)
qed

text \<open>
  C10. The limit is tested for truthiness, so a limit of 0 is no limit: the points of all
  observations that are not missing are returned, as when the limit is omitted.
\<close>

theorem transformFREDData_zero_limit:
  "transformFREDData h observations (Some (Fin 0))
     = map (\<lambda>obs. \<lparr>cdp_date = monthYear h (obs_date obs),
                     cdp_value = parseFloat (obs_value obs), cdp_label = None\<rparr>)
         (filter (\<lambda>obs. obs_value obs \<noteq> ''.'' \<and> obs_value obs \<noteq> []) observations)
   \<and> transformFREDData h observations (Some (Fin 0)) = transformFREDData h observations None"
proof -
  have "notMissing = (\<lambda>obs. obs_value obs \<noteq> ''.'' \<and> obs_value obs \<noteq> [])"
    by (simp add: notMissing_def fun_eq_iff)
  then show ?thesis
    by (simp add: transformFREDData_def)
qed


section \<open>Evaluating the number model\<close>

lemmas parse_eval =
  parseFloat_def signPart_def exponentPart_def isWhite_def isDigit_def digitsVal_def
  digitVal_def pow10_def

lemmas round_eval = toDouble_def floorLog2_def bits_pos bits_nonpos roundHalfEven_def pow2_def signedZero_def signedInf_def Let_def

lemma parseFloat_zero_change: "parseFloat ''+0.0%'' = Fin 0"
  by (simp add: parse_eval signedZero_def Let_def cong: let_weak_cong prod.case_cong_weak)

lemma parseFloat_minus_7_3: "parseFloat ''-7.3%'' = Fin (- (8219069319951155 / 1125899906842624))"
  by (simp add: parse_eval round_eval cong: let_weak_cong prod.case_cong_weak)

lemma toDouble_5_2: "toDouble (52 / 10) = Fin (5854679515581645 / 1125899906842624)"
  by (simp add: round_eval cong: let_weak_cong prod.case_cong_weak)

lemma parseFloat_plus_5_2: "parseFloat ''+5.2%'' = Fin (5854679515581645 / 1125899906842624)"
  by (simp add: parse_eval round_eval cong: let_weak_cong prod.case_cong_weak)

section \<open>Change polarity\<close>

text \<open>
  C6. The change is the number that \<open>parseFloat\<close> reads from the change string. A zero
  is neutral for every identifier; for \<open>unemployment\<close> a negative change is positive and a
  positive change negative; for every other identifier the classification follows the
  sign.
\<close>

theorem getChangeType_polarity:
  "(isZero (parseFloat change) \<longrightarrow> getChangeType change metricId = neutral)
   \<and> (belowZero (parseFloat change) \<longrightarrow> getChangeType change ''unemployment'' = positive)
   \<and> (aboveZero (parseFloat change) \<longrightarrow> getChangeType change ''unemployment'' = negative)
   \<and> (metricId \<noteq> ''unemployment'' \<longrightarrow>
        (aboveZero (parseFloat change) \<longrightarrow> getChangeType change metricId = positive)
        \<and> (belowZero (parseFloat change) \<longrightarrow> getChangeType change metricId = negative))"
  using sign_exclusive [of "parseFloat change"]
  by (auto simp: getChangeType_def Let_def strictEq_zero num_less_zero num_greater_zero)

theorem getChangeType_polarity_witness:
  "isZero (parseFloat ''+0.0%'') \<and> getChangeType ''+0.0%'' ''hpi'' = neutral
   \<and> belowZero (parseFloat ''-7.3%'') \<and> getChangeType ''-7.3%'' ''unemployment'' = positive
   \<and> aboveZero (parseFloat ''+5.2%'') \<and> getChangeType ''+5.2%'' ''unemployment'' = negative
   \<and> ''inventory'' \<noteq> ''unemployment''
   \<and> getChangeType ''+5.2%'' ''inventory'' = positive
   \<and> getChangeType ''-7.3%'' ''inventory'' = negative"
proof -
  have zero: "isZero (parseFloat ''+0.0%'')"
    by (simp add: parseFloat_zero_change isZero_def)
  have below: "belowZero (parseFloat ''-7.3%'')"
    by (simp add: parseFloat_minus_7_3 belowZero_def)
  have above: "aboveZero (parseFloat ''+5.2%'')"
    by (simp add: parseFloat_plus_5_2 aboveZero_def)
  have other: "''inventory'' \<noteq> ''unemployment''"
    by simp
  from getChangeType_polarity [of "''+0.0%''" "''hpi''"]
       getChangeType_polarity [of "''-7.3%''" "''inventory''"]
       getChangeType_polarity [of "''+5.2%''" "''inventory''"]
       zero below above other
  show ?thesis by blast
qed

section \<open>The series fetcher\<close>

lemma configError_not_upstream: "configError \<noteq> upstreamError st txt"
  by (simp add: configError_def upstreamError_def)

lemma configError_not_range: "configError \<noteq> JsError ''RangeError'' msg"
  by (simp add: configError_def)

lemma dateRange_error:
  "dateRange h l = Inl e \<Longrightarrow> e = JsError ''RangeError'' ''Invalid time value''"
  by (auto simp: dateRange_def isoDateString_def Let_def split: sum.splits option.splits)

lemma fetchFREDSeries_no_key:
  "FRED_API_KEY h = None \<or> FRED_API_KEY h = Some [] \<Longrightarrow>
   fetchFREDSeries h seriesId limit = (Inl configError, [])"
  by (auto simp: fetchFREDSeries_def)

lemma fetchFREDSeries_with_key:
  assumes key: "FRED_API_KEY h = Some k" "k \<noteq> []"
    and transport: "\<forall>req. fetch h req \<noteq> Inl configError"
    and body: "\<forall>req r. fetch h req = Inr r \<longrightarrow> json r \<noteq> Inl configError"
  shows "fst (fetchFREDSeries h seriesId limit) \<noteq> Inl configError"
proof -
  have range: "dateRange h l \<noteq> Inl configError" for l
    using dateRange_error [of h l configError] configError_not_range by auto
  have upstream: "upstreamError st msg \<noteq> configError" for st msg
    using configError_not_upstream [of st msg] by simp
  show ?thesis
    using key transport body range upstream
    by (auto simp: fetchFREDSeries_def Let_def split: option.splits sum.splits if_splits prod.splits)
qed

text \<open>
  C9. Without the key (unset; the code treats the empty string alike) the call fails
  with the configuration error and sends no request, whatever the series and the limit.
  That error differs from every upstream-status error; and as long as the transport
  itself (a rejected \<open>fetch\<close>, a rejected \<open>json()\<close>) does not raise an error of that very
  name and message, the call fails with it only when the key is missing.
\<close>

theorem fetchFREDSeries_missing_key:
  "(FRED_API_KEY h = None \<longrightarrow> fetchFREDSeries h seriesId limit = (Inl configError, []))
   \<and> configError = JsError ''Error'' ''FRED_API_KEY environment variable is not set''
   \<and> configError \<noteq> upstreamError st txt
   \<and> ((\<forall>req. fetch h req \<noteq> Inl configError)
        \<and> (\<forall>req r. fetch h req = Inr r \<longrightarrow> json r \<noteq> Inl configError) \<longrightarrow>
        (fst (fetchFREDSeries h seriesId limit) = Inl configError)
          = (FRED_API_KEY h = None \<or> FRED_API_KEY h = Some []))"
proof (intro conjI impI)
  assume "FRED_API_KEY h = None"
  then show "fetchFREDSeries h seriesId limit = (Inl configError, [])"
    by (simp add: fetchFREDSeries_no_key)
next
  show "configError = JsError ''Error'' ''FRED_API_KEY environment variable is not set''"
    by (simp add: configError_def)
next
  show "configError \<noteq> upstreamError st txt"
    by (rule configError_not_upstream)
next
  assume transport: "(\<forall>req. fetch h req \<noteq> Inl configError)
        \<and> (\<forall>req r. fetch h req = Inr r \<longrightarrow> json r \<noteq> Inl configError)"
  show "(fst (fetchFREDSeries h seriesId limit) = Inl configError)
          = (FRED_API_KEY h = None \<or> FRED_API_KEY h = Some [])"
  proof (cases "FRED_API_KEY h = None \<or> FRED_API_KEY h = Some []")
    case True
    then show ?thesis
      using fetchFREDSeries_no_key [of h seriesId limit] by simp
  next
    case False
    then obtain k where "FRED_API_KEY h = Some k" "k \<noteq> []"
      by (cases "FRED_API_KEY h") auto
    with transport False show ?thesis
      using fetchFREDSeries_with_key [of h k seriesId limit] by simp
  qed
qed

lemma exampleFetch_errors:
  "exampleFetch req \<noteq> Inl configError"
  "exampleFetch req = Inr r \<Longrightarrow> json r \<noteq> Inl configError"
  by (auto simp: exampleFetch_def okResponse_def configError_def split: if_splits)

theorem fetchFREDSeries_missing_key_witness:
  "FRED_API_KEY unconfiguredHost = None
   \<and> fetchFREDSeries unconfiguredHost housePriceIndex_id (Some (Fin 24)) = (Inl configError, [])
   \<and> configError \<noteq> upstreamError 400 ''Bad Request''
   \<and> FRED_API_KEY exampleHost = Some ''demo''
   \<and> fst (fetchFREDSeries exampleHost activeListings_id None) \<noteq> Inl configError"
proof -
  have absent: "FRED_API_KEY unconfiguredHost = None"
    by (simp add: unconfiguredHost_def)
  have present: "FRED_API_KEY exampleHost = Some ''demo''"
    by (simp add: exampleHost_def)
  have transport: "(\<forall>req. fetch exampleHost req \<noteq> Inl configError)
        \<and> (\<forall>req r. fetch exampleHost req = Inr r \<longrightarrow> json r \<noteq> Inl configError)"
    using exampleFetch_errors by (simp add: exampleHost_def)
  from fetchFREDSeries_missing_key
         [of unconfiguredHost housePriceIndex_id "Some (Fin 24)" 400 "''Bad Request''"]
       fetchFREDSeries_missing_key [of exampleHost activeListings_id None]
       absent present transport
  show ?thesis by simp
qed

lemmas date_eval =
  Date_new_def isoDateParts_def isDigit_def digitsVal_def digitVal_def daysInMonth_def isLeap_def
  TimeClip_def MakeDate_def MakeDay_def DayFromYear_def monthStart_def msPerDay_def
  getMonth_def getFullYear_def LocalTime_def UTC_def MonthFromTime_def YearFromTime_def
  YearFromDay_def DayWithinYear_def Day_def DateFromTime_def TimeWithinDay_def
  monthYear_def months_def intToString_def digitsOf_small digitsOf_large digitChar_def Let_def

lemma example_labels:
  "monthYear exampleHost ''2023-01-01'' = ''Jan 2023''"
  "monthYear exampleHost ''2023-02-01'' = ''Feb 2023''"
  "monthYear exampleHost ''2023-04-01'' = ''Apr 2023''"
  by (simp_all add: date_eval exampleHost_def cong: let_weak_cong prod.case_cong_weak)

lemma example_values:
  "parseFloat ''100.5'' = Fin (201 / 2)"
  "parseFloat ''101.2'' = Fin (7121316910779597 / 70368744177664)"
  "parseFloat ''102.0'' = Fin 102"
  by (simp_all add: parse_eval round_eval cong: let_weak_cong prod.case_cong_weak)

lemma example_valid:
  "filter (\<lambda>obs. obs_value obs \<noteq> ''.'' \<and> obs_value obs \<noteq> []) exampleSeries
     = [\<lparr>obs_date = ''2023-01-01'', obs_value = ''100.5''\<rparr>,
        \<lparr>obs_date = ''2023-02-01'', obs_value = ''101.2''\<rparr>,
        \<lparr>obs_date = ''2023-04-01'', obs_value = ''102.0''\<rparr>]"
  by (simp add: exampleSeries_def)

theorem transformFREDData_last_n_witness:
  "(0::nat) < 2
   \<and> transformFREDData exampleHost exampleSeries (Some (Fin (real (2::nat))))
       = [\<lparr>cdp_date = ''Feb 2023'', cdp_value = Fin (7121316910779597 / 70368744177664),
            cdp_label = None\<rparr>,
          \<lparr>cdp_date = ''Apr 2023'', cdp_value = Fin 102, cdp_label = None\<rparr>]
   \<and> transformFREDData exampleHost exampleSeries None
       = [\<lparr>cdp_date = ''Jan 2023'', cdp_value = Fin (201 / 2), cdp_label = None\<rparr>,
          \<lparr>cdp_date = ''Feb 2023'', cdp_value = Fin (7121316910779597 / 70368744177664),
            cdp_label = None\<rparr>,
          \<lparr>cdp_date = ''Apr 2023'', cdp_value = Fin 102, cdp_label = None\<rparr>]"
proof -
  have pos: "(0::nat) < 2" by simp
  from transformFREDData_last_n [OF pos, of exampleHost exampleSeries] pos
  show ?thesis
    unfolding example_valid by (simp add: example_labels example_values)
qed

theorem transformFREDData_zero_limit_witness:
  "transformFREDData exampleHost exampleSeries (Some (Fin 0))
     = [\<lparr>cdp_date = ''Jan 2023'', cdp_value = Fin (201 / 2), cdp_label = None\<rparr>,
        \<lparr>cdp_date = ''Feb 2023'', cdp_value = Fin (7121316910779597 / 70368744177664),
          cdp_label = None\<rparr>,
        \<lparr>cdp_date = ''Apr 2023'', cdp_value = Fin 102, cdp_label = None\<rparr>]
   \<and> length (transformFREDData exampleHost exampleSeries (Some (Fin 0))) = 3"
proof -
  from transformFREDData_zero_limit [of exampleHost exampleSeries]
  have "transformFREDData exampleHost exampleSeries (Some (Fin 0))
     = [\<lparr>cdp_date = ''Jan 2023'', cdp_value = Fin (201 / 2), cdp_label = None\<rparr>,
        \<lparr>cdp_date = ''Feb 2023'', cdp_value = Fin (7121316910779597 / 70368744177664),
          cdp_label = None\<rparr>,
        \<lparr>cdp_date = ''Apr 2023'', cdp_value = Fin 102, cdp_label = None\<rparr>]"
    unfolding example_valid by (simp add: example_labels example_values)
  then show ?thesis by simp
qed

lemma central_labels:
  "monthYear centralHost ''2023-01-01'' = ''Dec 2022''"
  "monthYear centralHost ''2023-02-01'' = ''Jan 2023''"
  "monthYear centralHost ''2023-04-01'' = ''Mar 2023''"
  by (simp_all add: date_eval exampleHost_def centralHost_def cong: let_weak_cong prod.case_cong_weak)


section \<open>The aggregator\<close>

lemma getLatestValue_Nil [simp]: "getLatestValue [] = None"
  by (simp add: getLatestValue_def)

lemma getYearOverYearChange_Nil [simp]: "getYearOverYearChange h [] = ''+0.0%''"
  by (simp add: getYearOverYearChange_def)

lemma getMonthOverMonthChange_Nil [simp]: "getMonthOverMonthChange [] = ''+0.0%''"
  by (simp add: getMonthOverMonthChange_def)

lemma transformFREDData_Nil [simp]: "transformFREDData h [] limit = []"
  by (simp add: transformFREDData_def split: option.split)

lemma getChangeType_no_change [simp]: "getChangeType ''+0.0%'' metricId = neutral"
  by (simp add: getChangeType_def parseFloat_zero_change strictEq_def)

lemma notAvailable_metric [simp]: "notAvailable (metric i t ''N/A'' ''+0.0%'' d)"
  by (simp add: notAvailable_def metric_def)

lemma notAvailable_fallbackMetric [simp]: "notAvailable (fallbackMetric i t d)"
  by (simp add: notAvailable_def fallbackMetric_def)

lemma truthyOpt_None [simp]: "\<not> truthyOpt None"
  by (simp add: truthyOpt_def)

lemma assemble_ids:
  "map m_id (metrics (assemble h a b c d e))
     = [''hpi'', ''inventory'', ''rent'', ''permits'', ''unemployment'']"
  by (simp add: assemble_def metric_def Let_def)

lemma fallback_ids:
  "map m_id (metrics fallbackData) = [''hpi'', ''inventory'', ''rent'', ''permits'', ''unemployment'']"
  by (simp add: fallbackData_def fallbackMetric_def)

lemma assemble_hpi_empty:
  "housePriceIndex (assemble h [] b c d e) = [] \<and> notAvailable (metrics (assemble h [] b c d e) ! 0)"
  by (simp add: assemble_def Let_def)

lemma assemble_inventory_empty:
  "activeListings (assemble h a [] c d e) = [] \<and> notAvailable (metrics (assemble h a [] c d e) ! 1)"
  by (simp add: assemble_def Let_def)

lemma assemble_permits_empty:
  "buildingPermits (assemble h a b [] d e) = [] \<and> notAvailable (metrics (assemble h a b [] d e) ! 3)"
  by (simp add: assemble_def Let_def)

lemma assemble_rent_empty:
  "rentCPI (assemble h a b c [] e) = [] \<and> notAvailable (metrics (assemble h a b c [] e) ! 2)"
  by (simp add: assemble_def Let_def)

lemma assemble_unemployment_empty:
  "unemploymentRate (assemble h a b c d []) = []
   \<and> notAvailable (metrics (assemble h a b c d []) ! 4)"
  by (simp add: assemble_def Let_def)

lemma fallback_all:
  "housePriceIndex fallbackData = [] \<and> activeListings fallbackData = []
   \<and> buildingPermits fallbackData = [] \<and> rentCPI fallbackData = []
   \<and> unemploymentRate fallbackData = []
   \<and> notAvailable (metrics fallbackData ! 0) \<and> notAvailable (metrics fallbackData ! 1)
   \<and> notAvailable (metrics fallbackData ! 2) \<and> notAvailable (metrics fallbackData ! 3)
   \<and> notAvailable (metrics fallbackData ! 4)"
  by (simp add: fallbackData_def)

lemma failedOrEmpty_settled:
  "failedOrEmpty h seriesId \<Longrightarrow>
   settledObservations (fst (fetchFREDSeries h seriesId None)) = Inr []"
  by (auto simp: failedOrEmpty_def settledObservations_def split: sum.splits)

lemma tryBlock_Inr:
  assumes "tryBlock h = Inr p"
  obtains a b c d e where
    "settledObservations (fst (fetchFREDSeries h housePriceIndex_id None)) = Inr a"
    "settledObservations (fst (fetchFREDSeries h activeListings_id None)) = Inr b"
    "settledObservations (fst (fetchFREDSeries h buildingPermits_id None)) = Inr c"
    "settledObservations (fst (fetchFREDSeries h rentCPI_id None)) = Inr d"
    "settledObservations (fst (fetchFREDSeries h unemploymentRate_id None)) = Inr e"
    "p = assemble h a b c d e"
  using assms unfolding tryBlock_def by (auto split: sum.splits)

text \<open>
  C1. \<open>fetchAllHousingData\<close> always settles with a payload, never with a rejection. The
  payload has the five metrics \<open>hpi\<close>, \<open>inventory\<close>, \<open>rent\<close>, \<open>permits\<close>, \<open>unemployment\<close> in
  that order, and its five chart fields; a series whose fetch failed or gave no
  observations has an empty chart and a metric showing \<open>N/A\<close>, \<open>+0.0%\<close> and neutral.
\<close>

theorem fetchAllHousingData_shape:
  "\<exists>p. fetchAllHousingData h = Inr p
     \<and> map m_id (metrics p) = [''hpi'', ''inventory'', ''rent'', ''permits'', ''unemployment'']
     \<and> (failedOrEmpty h housePriceIndex_id \<longrightarrow>
          housePriceIndex p = [] \<and> notAvailable (metrics p ! 0))
     \<and> (failedOrEmpty h activeListings_id \<longrightarrow>
          activeListings p = [] \<and> notAvailable (metrics p ! 1))
     \<and> (failedOrEmpty h rentCPI_id \<longrightarrow>
          rentCPI p = [] \<and> notAvailable (metrics p ! 2))
     \<and> (failedOrEmpty h buildingPermits_id \<longrightarrow>
          buildingPermits p = [] \<and> notAvailable (metrics p ! 3))
     \<and> (failedOrEmpty h unemploymentRate_id \<longrightarrow>
          unemploymentRate p = [] \<and> notAvailable (metrics p ! 4))"
proof (cases "tryBlock h")
  case (Inl err)
  show ?thesis
  proof (intro exI [of _ fallbackData] conjI impI)
    show "fetchAllHousingData h = Inr fallbackData"
      using Inl by (simp add: fetchAllHousingData_def)
    show "map m_id (metrics fallbackData)
            = [''hpi'', ''inventory'', ''rent'', ''permits'', ''unemployment'']"
      by (rule fallback_ids)
  qed (use fallback_all in blast)+
next
  case (Inr p)
  then obtain a b c d e where
    settled:
      "settledObservations (fst (fetchFREDSeries h housePriceIndex_id None)) = Inr a"
      "settledObservations (fst (fetchFREDSeries h activeListings_id None)) = Inr b"
      "settledObservations (fst (fetchFREDSeries h buildingPermits_id None)) = Inr c"
      "settledObservations (fst (fetchFREDSeries h rentCPI_id None)) = Inr d"
      "settledObservations (fst (fetchFREDSeries h unemploymentRate_id None)) = Inr e"
    and p: "p = assemble h a b c d e"
    by (rule tryBlock_Inr)
  have result: "fetchAllHousingData h = Inr p"
    using Inr by (simp add: fetchAllHousingData_def)
  have order: "map m_id (metrics p)
      = [''hpi'', ''inventory'', ''rent'', ''permits'', ''unemployment'']"
    unfolding p by (rule assemble_ids)
  have hpi: "housePriceIndex p = [] \<and> notAvailable (metrics p ! 0)"
    if "failedOrEmpty h housePriceIndex_id"
    using failedOrEmpty_settled [OF that] settled(1) assemble_hpi_empty [of h b c d e]
    unfolding p by simp
  have inventory: "activeListings p = [] \<and> notAvailable (metrics p ! 1)"
    if "failedOrEmpty h activeListings_id"
    using failedOrEmpty_settled [OF that] settled(2) assemble_inventory_empty [of h a c d e]
    unfolding p by simp
  have rent: "rentCPI p = [] \<and> notAvailable (metrics p ! 2)"
    if "failedOrEmpty h rentCPI_id"
    using failedOrEmpty_settled [OF that] settled(4) assemble_rent_empty [of h a b c e]
    unfolding p by simp
  have permits: "buildingPermits p = [] \<and> notAvailable (metrics p ! 3)"
    if "failedOrEmpty h buildingPermits_id"
    using failedOrEmpty_settled [OF that] settled(3) assemble_permits_empty [of h a b d e]
    unfolding p by simp
  have unemployment: "unemploymentRate p = [] \<and> notAvailable (metrics p ! 4)"
    if "failedOrEmpty h unemploymentRate_id"
    using failedOrEmpty_settled [OF that] settled(5) assemble_unemployment_empty [of h a b c d]
    unfolding p by simp
  show ?thesis
  proof (intro exI [of _ p] conjI impI)
    show "fetchAllHousingData h = Inr p" by (rule result)
    show "map m_id (metrics p) = [''hpi'', ''inventory'', ''rent'', ''permits'', ''unemployment'']"
      by (rule order)
  qed (use hpi inventory rent permits unemployment in blast)+
qed

lemmas ids = housePriceIndex_id_def activeListings_id_def buildingPermits_id_def rentCPI_id_def
  unemploymentRate_id_def

lemma example_fetches:
  "fst (fetchFREDSeries exampleHost housePriceIndex_id None)
     = Inr \<lparr>resp_observations = Some exampleSeries\<rparr>"
  "fst (fetchFREDSeries exampleHost activeListings_id None) = Inl (JsError ''Error'' ''API Error'')"
  "fst (fetchFREDSeries exampleHost buildingPermits_id None)
     = Inr \<lparr>resp_observations = Some zeroSeries\<rparr>"
  "fst (fetchFREDSeries exampleHost rentCPI_id None) = Inr \<lparr>resp_observations = Some []\<rparr>"
  "fst (fetchFREDSeries exampleHost unemploymentRate_id None) = Inr \<lparr>resp_observations = Some []\<rparr>"
  by (simp_all add: fetchFREDSeries_def exampleHost_def exampleFetch_def okResponse_def ids Let_def
       cong: let_weak_cong)

theorem fetchAllHousingData_shape_witness:
  "failedOrEmpty exampleHost activeListings_id \<and> failedOrEmpty exampleHost rentCPI_id
   \<and> (\<exists>p. fetchAllHousingData exampleHost = Inr p
        \<and> map m_id (metrics p) = [''hpi'', ''inventory'', ''rent'', ''permits'', ''unemployment'']
        \<and> activeListings p = [] \<and> notAvailable (metrics p ! 1)
        \<and> rentCPI p = [] \<and> notAvailable (metrics p ! 2))"
proof -
  have failed: "failedOrEmpty exampleHost activeListings_id"
    and empty: "failedOrEmpty exampleHost rentCPI_id"
    by (simp_all add: failedOrEmpty_def example_fetches)
  from fetchAllHousingData_shape [of exampleHost] obtain p where body:
    "fetchAllHousingData exampleHost = Inr p
     \<and> map m_id (metrics p) = [''hpi'', ''inventory'', ''rent'', ''permits'', ''unemployment'']
     \<and> (failedOrEmpty exampleHost housePriceIndex_id \<longrightarrow>
          housePriceIndex p = [] \<and> notAvailable (metrics p ! 0))
     \<and> (failedOrEmpty exampleHost activeListings_id \<longrightarrow>
          activeListings p = [] \<and> notAvailable (metrics p ! 1))
     \<and> (failedOrEmpty exampleHost rentCPI_id \<longrightarrow>
          rentCPI p = [] \<and> notAvailable (metrics p ! 2))
     \<and> (failedOrEmpty exampleHost buildingPermits_id \<longrightarrow>
          buildingPermits p = [] \<and> notAvailable (metrics p ! 3))
     \<and> (failedOrEmpty exampleHost unemploymentRate_id \<longrightarrow>
          unemploymentRate p = [] \<and> notAvailable (metrics p ! 4))" ..
  from body failed empty
  have "fetchAllHousingData exampleHost = Inr p
        \<and> map m_id (metrics p) = [''hpi'', ''inventory'', ''rent'', ''permits'', ''unemployment'']
        \<and> activeListings p = [] \<and> notAvailable (metrics p ! 1)
        \<and> rentCPI p = [] \<and> notAvailable (metrics p ! 2)"
    by simp
  then have "\<exists>p. fetchAllHousingData exampleHost = Inr p
        \<and> map m_id (metrics p) = [''hpi'', ''inventory'', ''rent'', ''permits'', ''unemployment'']
        \<and> activeListings p = [] \<and> notAvailable (metrics p ! 1)
        \<and> rentCPI p = [] \<and> notAvailable (metrics p ! 2)" ..
  with failed empty show ?thesis by simp
qed


section \<open>Percentage change\<close>

lemma digitChar_0: "digitChar 0 = CHR ''0''"
  by (simp add: digitChar_def)

lemma digitsOf_not_Nil: "digitsOf n \<noteq> []"
  by (subst digitsOf.simps) simp

lemma digitsOf_two: "10 \<le> n \<Longrightarrow> 2 \<le> length (digitsOf n)"
  using digitsOf_not_Nil [of "n div 10"]
  by (simp add: digitsOf_large Suc_le_eq)

text \<open>
  Below \<open>10^21\<close>, \<open>toFixed(1)\<close> of a finite number is its sign (for a negative value) and
  the one-decimal numeral of its magnitude.
\<close>

lemma fixedDigits_one:
  assumes "0 \<le> a"
  shows "fixedDigits 1 a = oneDecimal a"
proof -
  define n where "n = \<lfloor>a * 10 + 1 / 2\<rfloor>"
  have "0 \<le> n"
    using assms by (simp add: n_def)
  show ?thesis
  proof (cases "n < 10")
    case True
    with \<open>0 \<le> n\<close> have "n div 10 = 0" "n mod 10 = n"
      by simp_all
    with True show ?thesis
      by (simp add: fixedDigits_def oneDecimal_def n_def [symmetric] digitsOf_small digitChar_0)
  next
    case False
    then have large: "10 \<le> n" by simp
    have "\<not> length (digitsOf n) \<le> 1"
      using digitsOf_two [OF large] by simp
    moreover have "digitsOf n = digitsOf (n div 10) @ [digitChar (n mod 10)]"
      by (rule digitsOf_large [OF large])
    ultimately show ?thesis
      by (simp add: fixedDigits_def oneDecimal_def n_def [symmetric])
  qed
qed

lemma toFixed_one:
  assumes "isFinite x" "\<bar>mathVal x\<bar> < 10 ^ 21"
  shows "toFixed 1 x = (if mathVal x < 0 then ''-'' else []) @ oneDecimal \<bar>mathVal x\<bar>"
proof -
  have "\<not> 10 ^ 21 \<le> \<bar>mathVal x\<bar>"
    using assms(2) by simp
  moreover have "fixedDigits 1 \<bar>mathVal x\<bar> = oneDecimal \<bar>mathVal x\<bar>"
    by (rule fixedDigits_one) simp
  ultimately show ?thesis
    using assms(1)
    by (cases x) (simp_all add: toFixed_def isFinite_def isInf_def Let_def del: One_nat_def)
qed

lemma num_ge_zero_finite: "isFinite c \<Longrightarrow> num_ge c (Fin 0) = (0 \<le> mathVal c)"
  by (cases c) (auto simp: num_ge_def num_less_def isFinite_def isInf_def)

text \<open>
  C4, as amended. A zero old value (\<open>0\<close> or \<open>-0\<close>) gives exactly \<open>+0.0%\<close>. Otherwise, when the
  change \<open>((new - old) / old) * 100\<close>, computed in double arithmetic, is finite and below
  \<open>10^21\<close> in magnitude, the result is the explicit sign (\<open>+\<close> for a zero or positive
  change, \<open>-\<close> for a negative one), the change to one decimal place, and \<open>%\<close>.
\<close>

theorem calculatePercentageChange_format:
  assumes "change = num_mul (num_div (num_sub newValue oldValue) oldValue) (Fin 100)"
  shows "(isZero oldValue \<longrightarrow> calculatePercentageChange oldValue newValue = ''+0.0%'')
         \<and> (\<not> isZero oldValue \<and> isFinite change \<and> \<bar>mathVal change\<bar> < 10 ^ 21 \<longrightarrow>
              calculatePercentageChange oldValue newValue
                = (if 0 \<le> mathVal change then ''+'' else ''-'')
                  @ oneDecimal \<bar>mathVal change\<bar> @ ''%'')"
proof (intro conjI impI)
  assume "isZero oldValue"
  then show "calculatePercentageChange oldValue newValue = ''+0.0%''"
    by (simp add: calculatePercentageChange_def strictEq_zero)
next
  assume hyp: "\<not> isZero oldValue \<and> isFinite change \<and> \<bar>mathVal change\<bar> < 10 ^ 21"
  then have "toFixed 1 change
               = (if mathVal change < 0 then ''-'' else []) @ oneDecimal \<bar>mathVal change\<bar>"
    using toFixed_one [of change] by blast
  moreover have "num_ge change (Fin 0) = (0 \<le> mathVal change)"
    using hyp by (simp add: num_ge_zero_finite)
  ultimately show "calculatePercentageChange oldValue newValue
                = (if 0 \<le> mathVal change then ''+'' else ''-'')
                  @ oneDecimal \<bar>mathVal change\<bar> @ ''%''"
    using hyp assms
    by (simp add: calculatePercentageChange_def strictEq_zero Let_def del: One_nat_def)
qed

lemmas arith_eval = num_sub_def num_mul_def num_div_def isInf_def isZero_def

lemma change_100_110:
  "num_mul (num_div (num_sub (Fin 110) (Fin 100)) (Fin 100)) (Fin 100) = Fin 10"
  by (simp add: arith_eval round_eval cong: let_weak_cong)

lemma oneDecimal_10: "oneDecimal 10 = ''10.0''"
  by (simp add: oneDecimal_def digitsOf_small digitsOf_large digitChar_def)

theorem calculatePercentageChange_format_witness:
  "isZero (Fin 0) \<and> calculatePercentageChange (Fin 0) (Fin 100) = ''+0.0%''
   \<and> \<not> isZero (Fin 100)
   \<and> num_mul (num_div (num_sub (Fin 110) (Fin 100)) (Fin 100)) (Fin 100) = Fin 10
   \<and> calculatePercentageChange (Fin 100) (Fin 110) = ''+10.0%''"
proof -
  have zero: "isZero (Fin 0)" and nonzero: "\<not> isZero (Fin 100)"
    by (simp_all add: isZero_def)
  have small: "isFinite (Fin 10) \<and> \<bar>mathVal (Fin 10)\<bar> < 10 ^ 21"
    by (simp add: isFinite_def isInf_def)
  from calculatePercentageChange_format [OF refl, where oldValue = "Fin 0" and newValue = "Fin 100"] zero
  have first: "calculatePercentageChange (Fin 0) (Fin 100) = ''+0.0%''"
    by simp
  from calculatePercentageChange_format [OF change_100_110 [symmetric]] nonzero small
  have "calculatePercentageChange (Fin 100) (Fin 110) = ''+'' @ oneDecimal 10 @ ''%''"
    by simp
  with zero nonzero first change_100_110 show ?thesis
    by (simp add: oneDecimal_10)
qed


text \<open>
  C4 as stated fails where \<open>toFixed\<close> leaves fixed notation: from 1 to \<open>1e20\<close> the change
  is \<open>1e22\<close> percent, which \<open>toFixed(1)\<close> prints as \<open>1e+22\<close>, not to one decimal place.
\<close>

lemma shortestDigits_pos:
  "0 < fuel \<Longrightarrow>
   shortestDigits x n k fuel =
     (let scale = pow10 (n - k);
          lo = \<lfloor>x / scale\<rfloor>;
          hi = lo + 1;
          okLo = (toDouble (of_int lo * scale) = Fin x);
          okHi = (toDouble (of_int hi * scale) = Fin x);
          dLo = x - of_int lo * scale;
          dHi = of_int hi * scale - x
      in if okLo \<and> okHi then
           (if dLo < dHi \<or> (dLo = dHi \<and> even lo) then (lo, k) else (hi, k))
         else if okLo then (lo, k)
         else if okHi then (hi, k)
         else shortestDigits x n (k + 1) (fuel - 1))"
  by (cases fuel) (simp_all add: Let_def)

lemma change_1_1e20:
  "num_mul (num_div (num_sub (Fin 100000000000000000000) (Fin 1)) (Fin 1)) (Fin 100)
     = Fin 10000000000000000000000"
  by (simp add: arith_eval round_eval cong: let_weak_cong)

lemma digits_1e22: "digitsOf 10000000000000000000000 = ''10000000000000000000000''"
  by (simp add: digitsOf_small digitsOf_large digitChar_def)

lemma shortest_1e22: "shortestDigits 10000000000000000000000 23 1 16 = (1, 1)"
  by (simp add: shortestDigits_pos pow10_def round_eval cong: let_weak_cong)

lemma toFixed_1e22: "toFixed 1 (Fin 10000000000000000000000) = ''1e+22''"
  by (simp add: toFixed_def NumberToString_large_def digits_1e22 shortest_1e22 stripZeros_def
        pow10_def digitsOf_small digitsOf_large digitChar_def Let_def
      cong: let_weak_cong)

theorem calculatePercentageChange_counterexample:
  "\<not> isZero (Fin 1)
   \<and> num_mul (num_div (num_sub (Fin 100000000000000000000) (Fin 1)) (Fin 1)) (Fin 100)
       = Fin 10000000000000000000000
   \<and> calculatePercentageChange (Fin 1) (Fin 100000000000000000000) = ''+1e+22%''
   \<and> ''+'' @ oneDecimal 10000000000000000000000 @ ''%'' = ''+10000000000000000000000.0%''"
proof -
  have "calculatePercentageChange (Fin 1) (Fin 100000000000000000000) = ''+1e+22%''"
    by (simp add: calculatePercentageChange_def strictEq_def change_1_1e20 toFixed_1e22
          num_ge_def num_less_def del: One_nat_def)
  moreover have "oneDecimal 10000000000000000000000 = ''10000000000000000000000.0''"
    by (simp add: oneDecimal_def digits_1e22 digitChar_def)
  ultimately show ?thesis
    by (simp add: isZero_def change_1_1e20)
qed

lemma calculatePercentageChange_NaN: "calculatePercentageChange NaN (Fin 100) = ''NaN%''"
  by (simp add: calculatePercentageChange_def strictEq_def num_sub_def num_div_def num_mul_def
        num_ge_def toFixed_def)


section \<open>The latest valid value\<close>

lemma latestFrom_take:
  "n \<le> length obs \<Longrightarrow>
   latestFrom obs n
     = (case rev (filter notMissing (take n obs)) of
          [] \<Rightarrow> None
        | x # xs \<Rightarrow> Some (parseFloat (obs_value x)))"
proof (induction n)
  case 0
  show ?case by simp
next
  case (Suc i)
  then have "take (Suc i) obs = take i obs @ [obs ! i]"
    by (simp add: take_Suc_conv_app_nth)
  with Suc show ?case
    by (simp add: notMissing_def)
qed

text \<open>
  The latest valid value is the value of the last observation that is not missing, and
  \<open>null\<close> exactly when every observation is missing.
\<close>

lemma getLatestValue_last_valid:
  "getLatestValue observations
     = (case rev (filter notMissing observations) of
          [] \<Rightarrow> None
        | x # xs \<Rightarrow> Some (parseFloat (obs_value x)))"
  using latestFrom_take [of "length observations" observations]
  by (simp add: getLatestValue_def)

lemma getLatestValue_None_iff:
  "getLatestValue observations = None \<longleftrightarrow> (\<forall>obs \<in> set observations. \<not> notMissing obs)"
proof -
  have "getLatestValue observations = None \<longleftrightarrow> rev (filter notMissing observations) = []"
    by (simp add: getLatestValue_last_valid split: list.split)
  then show ?thesis
    by (simp add: filter_empty_conv)
qed

lemma parseFloat_zero: "parseFloat ''0'' = Fin 0"
  by (simp add: parse_eval signedZero_def Let_def cong: let_weak_cong prod.case_cong_weak)

lemma assemble_permits:
  "m_value (metrics (assemble h a b c d e) ! 3)
     = (if truthyOpt (getLatestValue c) then formatNumber h (Math_round (the (getLatestValue c)))
        else ''N/A'')"
  "buildingPermits (assemble h a b c d e) = transformFREDData h c None"
  by (simp_all add: assemble_def metric_def Let_def)

lemma example_tryBlock:
  "tryBlock exampleHost = Inr (assemble exampleHost exampleSeries [] zeroSeries [] [])"
  by (simp add: tryBlock_def example_fetches settledObservations_def)

text \<open>
  C3 (the code departs from it). In the example host the permits series holds the single
  observation \<open>0\<close>. Its latest valid value is the number 0, and the chart carries the
  point 0; but the metric is built with a truthiness test on that number and shows
  \<open>N/A\<close>.
\<close>

theorem zero_value_shown_as_not_available:
  "notMissing (zeroSeries ! 0)
   \<and> getLatestValue zeroSeries = Some (Fin 0)
   \<and> (\<exists>p. fetchAllHousingData exampleHost = Inr p
          \<and> map cdp_value (buildingPermits p) = [Fin 0]
          \<and> m_id (metrics p ! 3) = ''permits''
          \<and> m_value (metrics p ! 3) = ''N/A'')"
proof -
  have valid: "notMissing (zeroSeries ! 0)"
    by (simp add: zeroSeries_def notMissing_def)
  have latest: "getLatestValue zeroSeries = Some (Fin 0)"
    by (simp add: getLatestValue_last_valid zeroSeries_def notMissing_def parseFloat_zero)
  let ?p = "assemble exampleHost exampleSeries [] zeroSeries [] []"
  have result: "fetchAllHousingData exampleHost = Inr ?p"
    by (simp add: fetchAllHousingData_def example_tryBlock)
  have chart: "map cdp_value (buildingPermits ?p) = [Fin 0]"
    by (simp add: assemble_permits transformFREDData_def zeroSeries_def notMissing_def
          parseFloat_zero)
  have "map m_id (metrics ?p) ! 3 = ''permits''"
    by (simp add: assemble_ids)
  then have ident: "m_id (metrics ?p ! 3) = ''permits''"
    by (simp add: assemble_def Let_def)
  have shown: "m_value (metrics ?p ! 3) = ''N/A''"
    by (simp add: assemble_permits latest truthyOpt_def)
  from result chart ident shown
  have "\<exists>p. fetchAllHousingData exampleHost = Inr p
          \<and> map cdp_value (buildingPermits p) = [Fin 0]
          \<and> m_id (metrics p ! 3) = ''permits''
          \<and> m_value (metrics p ! 3) = ''N/A''"
    by (intro exI [of _ ?p] conjI)
  with valid latest show ?thesis
    by (intro conjI)
qed


section \<open>The calendar\<close>

lemma div_step:
  fixes a k :: int
  assumes "1 < k"
  shows "(a + 1) div k = a div k + (if (a + 1) mod k = 0 then 1 else 0)"
proof -
  have r: "0 \<le> a mod k" "a mod k < k"
    using assms by simp_all
  have split: "a + 1 = (a mod k + 1) + k * (a div k)"
    by simp
  show ?thesis
  proof (cases "a mod k + 1 = k")
    case True
    then have whole: "a + 1 = k * (a div k + 1)"
      using split by (simp add: algebra_simps)
    have "(a + 1) div k = a div k + 1"
      unfolding whole using assms by simp
    moreover have "(a + 1) mod k = 0"
      unfolding whole by simp
    ultimately show ?thesis by simp
  next
    case False
    with r have small: "0 \<le> a mod k + 1" "a mod k + 1 < k"
      by linarith+
    have "(a + 1) div k = ((a mod k + 1) + k * (a div k)) div k"
      using split by simp
    also have "\<dots> = (a mod k + 1) div k + a div k"
      using assms by (simp only: div_mult_self2)
    also have "(a mod k + 1) div k = 0"
      using small by simp
    finally have quot: "(a + 1) div k = a div k" by simp
    have "(a + 1) mod k = ((a mod k + 1) + k * (a div k)) mod k"
      using split by simp
    also have "\<dots> = (a mod k + 1) mod k"
      by (simp only: mod_mult_self2)
    also have "\<dots> = a mod k + 1"
      using small by simp
    finally have "(a + 1) mod k \<noteq> 0"
      using r by linarith
    with quot show ?thesis by simp
  qed
qed

lemma mod_shift:
  fixes y :: int
  shows "(y - k * c) mod k = y mod k"
  using mod_mult_self2 [of y k "- c"] by simp

lemma div_bounds:
  fixes a :: int
  assumes "0 < k"
  shows "k * (a div k) \<le> a" "a < k * (a div k) + k"
  using mult_div_mod_eq [of k a] pos_mod_sign [of k a] pos_mod_bound [of k a] assms by linarith+

lemma year_estimate:
  fixes y a b c :: int
  assumes "4 * a \<le> y - 1969" "y - 1969 < 4 * a + 4"
    and "100 * b \<le> y - 1901" "y - 1901 < 100 * b + 100"
    and "400 * c \<le> y - 1601" "y - 1601 < 400 * c + 400"
  shows "146097 * y - 287811697 \<le> 146000 * y - 287620000 + 400 * a - 400 * b + 400 * c"
    and "146000 * y - 287620000 + 400 * a - 400 * b + 400 * c \<le> 146097 * y - 287810497"
  using assms by linarith+

lemma DayFromYear_expand:
  "400 * DayFromYear y
     = 146000 * y - 287620000 + 400 * ((y - 1969) div 4) - 400 * ((y - 1901) div 100)
       + 400 * ((y - 1601) div 400)"
  unfolding DayFromYear_def by (simp only: distrib_left right_diff_distrib)

lemma DayFromYear_bounds:
  "146097 * y - 287811697 \<le> 400 * DayFromYear y"
  "400 * DayFromYear y \<le> 146097 * y - 287810497"
  unfolding DayFromYear_expand
  by (rule year_estimate; rule div_bounds; simp)+

lemma DayFromYear_strict_mono:
  assumes "y < z"
  shows "DayFromYear y < DayFromYear z"
proof -
  define p where "p = DayFromYear y"
  define q where "q = DayFromYear z"
  have "400 * p \<le> 146097 * y - 287810497" "146097 * z - 287811697 \<le> 400 * q"
    unfolding p_def q_def by (rule DayFromYear_bounds)+
  with assms have "p < q" by linarith
  then show ?thesis by (simp add: p_def q_def)
qed

lemma DayFromYear_mono: "y \<le> z \<Longrightarrow> DayFromYear y \<le> DayFromYear z"
  using DayFromYear_strict_mono [of y z] by (cases "y = z") simp_all

text \<open>\<open>YearFromDay\<close> finds the year whose days include the given day.\<close>

lemma YearFromDay_unique:
  assumes "DayFromYear y \<le> d" "d < DayFromYear (y + 1)"
  shows "YearFromDay d = y"
proof -
  define e where "e = 1970 + (400 * d) div 146097"
  define p where "p = DayFromYear y"
  define q where "q = DayFromYear (y + 1)"
  define k where "k = (400 * d) div 146097"
  have k: "146097 * k \<le> 400 * d" "400 * d < 146097 * k + 146097"
    unfolding k_def by (rule div_bounds; simp)+
  have pq: "146097 * y - 287811697 \<le> 400 * p" "400 * q \<le> 146097 * y - 287664400"
    unfolding p_def q_def using DayFromYear_bounds [of y] DayFromYear_bounds [of "y + 1"]
    by (simp_all only: distrib_left)
  have "p \<le> d" "d < q"
    using assms by (simp_all add: p_def q_def)
  with k pq have "y - 1971 \<le> k" "k \<le> y - 1969"
    by linarith+
  then have near: "e = y - 1 \<or> e = y \<or> e = y + 1"
    unfolding e_def k_def [symmetric] by linarith
  have below: "DayFromYear (y - 1) < DayFromYear y"
    by (rule DayFromYear_strict_mono) simp
  have above: "DayFromYear (y + 1) < DayFromYear (y + 2)"
    by (rule DayFromYear_strict_mono) simp
  have "YearFromDay d
          = (if d < DayFromYear e then e - 1 else if DayFromYear (e + 1) \<le> d then e + 1 else e)"
    by (simp add: YearFromDay_def e_def Let_def)
  also have "\<dots> = y"
    using near
  proof (elim disjE)
    assume "e = y - 1"
    with assms below show ?thesis by simp
  next
    assume "e = y"
    with assms show ?thesis by simp
  next
    assume e: "e = y + 1"
    with assms show ?thesis by simp
  qed
  finally show ?thesis .
qed

lemma div_step_shift:
  fixes y :: int
  assumes "1 < k"
  shows "(y - k * c) div k = (y - k * c - 1) div k + (if y mod k = 0 then 1 else 0)"
  using div_step [OF assms, of "y - k * c - 1"] mod_shift [of y k c] by simp

lemma century_divisible:
  fixes y :: int
  shows "y mod 400 = 0 \<Longrightarrow> y mod 100 = 0" and "y mod 100 = 0 \<Longrightarrow> y mod 4 = 0"
proof -
  assume "y mod 400 = 0"
  then have "400 dvd y" by (simp only: mod_eq_0_iff_dvd)
  moreover have "(100::int) dvd 400" by simp
  ultimately have "100 dvd y" by (rule dvd_trans [rotated])
  then show "y mod 100 = 0" by (simp only: mod_eq_0_iff_dvd)
next
  assume "y mod 100 = 0"
  then have "100 dvd y" by (simp only: mod_eq_0_iff_dvd)
  moreover have "(4::int) dvd 100" by simp
  ultimately have "4 dvd y" by (rule dvd_trans [rotated])
  then show "y mod 4 = 0" by (simp only: mod_eq_0_iff_dvd)
qed

lemma DayFromYear_Suc: "DayFromYear (y + 1) = DayFromYear y + DaysInYear y"
proof -
  define a where "a = (y - 1969) div 4"
  define b where "b = (y - 1901) div 100"
  define c where "c = (y - 1601) div 400"
  define p4 where "p4 \<longleftrightarrow> y mod 4 = 0"
  define p100 where "p100 \<longleftrightarrow> y mod 100 = 0"
  define p400 where "p400 \<longleftrightarrow> y mod 400 = 0"
  have shift4: "y + 1 - 1969 = y - 4 * 492" "y - 1969 = y - 4 * 492 - 1"
    and shift100: "y + 1 - 1901 = y - 100 * 19" "y - 1901 = y - 100 * 19 - 1"
    and shift400: "y + 1 - 1601 = y - 400 * 4" "y - 1601 = y - 400 * 4 - 1"
    by simp_all
  have a': "(y + 1 - 1969) div 4 = a + (if p4 then 1 else 0)"
    unfolding a_def p4_def shift4 by (rule div_step_shift) simp
  have b': "(y + 1 - 1901) div 100 = b + (if p100 then 1 else 0)"
    unfolding b_def p100_def shift100 by (rule div_step_shift) simp
  have c': "(y + 1 - 1601) div 400 = c + (if p400 then 1 else 0)"
    unfolding c_def p400_def shift400 by (rule div_step_shift) simp
  have next_year:
    "DayFromYear (y + 1)
       = 365 * (y + 1 - 1970) + (a + (if p4 then 1 else 0)) - (b + (if p100 then 1 else 0))
         + (c + (if p400 then 1 else 0))"
    unfolding DayFromYear_def a' b' c' by (rule refl)
  have this_year: "DayFromYear y = 365 * (y - 1970) + a - b + c"
    unfolding DayFromYear_def a_def b_def c_def by (rule refl)
  have days: "DaysInYear y = (if p4 \<and> (\<not> p100 \<or> p400) then 366 else 365)"
    unfolding DaysInYear_def isLeap_def p4_def p100_def p400_def by (rule refl)
  have implied: "p400 \<Longrightarrow> p100" "p100 \<Longrightarrow> p4"
    unfolding p4_def p100_def p400_def by (rule century_divisible; assumption)+
  show ?thesis
    unfolding next_year this_year days
    using implied by (cases p4; cases p100; cases p400) simp_all
qed

lemma Day_of_midnight_plus:
  assumes "0 \<le> r" "r < msPerDay"
  shows "Day (D * msPerDay + r) = D"
proof -
  have "(r + msPerDay * D) div msPerDay = D + r div msPerDay"
    by (rule div_mult_self2) (simp add: msPerDay_def)
  moreover have "r div msPerDay = 0"
    using assms by simp
  ultimately show ?thesis
    by (simp add: Day_def add.commute mult.commute)
qed

lemma month_cases:
  fixes m :: int
  assumes "1 \<le> m" "m \<le> 12"
  obtains "m = 1" | "m = 2" | "m = 3" | "m = 4" | "m = 5" | "m = 6"
    | "m = 7" | "m = 8" | "m = 9" | "m = 10" | "m = 11" | "m = 12"
proof -
  have "m \<le> 6 \<or> 7 \<le> m" by linarith
  then have "m = 1 \<or> m = 2 \<or> m = 3 \<or> m = 4 \<or> m = 5 \<or> m = 6
      \<or> m = 7 \<or> m = 8 \<or> m = 9 \<or> m = 10 \<or> m = 11 \<or> m = 12"
  proof
    assume "m \<le> 6"
    with assms(1) have "m = 1 \<or> m = 2 \<or> m = 3 \<or> m = 4 \<or> m = 5 \<or> m = 6" by linarith
    then show ?thesis by blast
  next
    assume "7 \<le> m"
    with assms(2) have "m = 7 \<or> m = 8 \<or> m = 9 \<or> m = 10 \<or> m = 11 \<or> m = 12" by linarith
    then show ?thesis by blast
  qed
  with that show thesis by blast
qed

lemma day_within_year:
  assumes "1 \<le> m" "m \<le> 12" "1 \<le> d" "d \<le> daysInMonth y m"
  shows "0 \<le> monthStart (isLeap y) (m - 1) + d - 1"
    and "monthStart (isLeap y) (m - 1) + d - 1 < DaysInYear y"
  using assms(1,2)
  by (cases m rule: month_cases; cases "isLeap y";
      use assms(3,4) in \<open>simp add: monthStart_def daysInMonth_def DaysInYear_def\<close>)+

lemma MakeDay_of_month:
  assumes "1 \<le> m" "m \<le> 12"
  shows "MakeDay y (m - 1) d = DayFromYear y + monthStart (isLeap y) (m - 1) + d - 1"
proof -
  have "(m - 1) div 12 = 0" "(m - 1) mod 12 = m - 1"
    using assms by simp_all
  then show ?thesis
    by (simp add: MakeDay_def)
qed

text \<open>
  A time on the day that \<open>MakeDay\<close> gives for year \<open>y\<close>, month \<open>m\<close> (1 to 12) and a day
  \<open>d\<close> of that month lies in that year and month.
\<close>

lemma year_month_of_day:
  assumes m: "1 \<le> m" "m \<le> 12" and d: "1 \<le> d" "d \<le> daysInMonth y m"
    and t: "Day t = MakeDay y (m - 1) d"
  shows "YearFromTime t = y" and "MonthFromTime t = m - 1"
proof -
  define k where "k = monthStart (isLeap y) (m - 1) + d - 1"
  have k: "0 \<le> k" "k < DaysInYear y"
    unfolding k_def using day_within_year [OF m d] by simp_all
  have day: "Day t = DayFromYear y + k"
    using t MakeDay_of_month [OF m, of y d] by (simp add: k_def)
  show year: "YearFromTime t = y"
    unfolding YearFromTime_def
    by (rule YearFromDay_unique) (use k day DayFromYear_Suc [of y] in simp_all)
  have within: "DayWithinYear t = k"
    by (simp add: DayWithinYear_def year day)
  show "MonthFromTime t = m - 1"
    using m(1,2)
    by (cases m rule: month_cases; cases "isLeap y";
        use d within in \<open>simp add: MonthFromTime_def year Let_def k_def monthStart_def daysInMonth_def\<close>)
qed

section \<open>Date strings and labels\<close>

lemma DaysInYear_le: "DaysInYear y \<le> 366"
  by (simp add: DaysInYear_def)

lemma digitVal_range: "isDigit c \<Longrightarrow> 0 \<le> digitVal c \<and> digitVal c \<le> 9"
  by (auto simp: isDigit_def digitVal_def)

lemma digitsVal_snoc: "digitsVal (ds @ [c]) = 10 * digitsVal ds + digitVal c"
  by (simp add: digitsVal_def)

lemma digitsVal_range:
  "list_all isDigit ds \<Longrightarrow> 0 \<le> digitsVal ds \<and> digitsVal ds < 10 ^ length ds"
proof (induction ds rule: rev_induct)
  case Nil
  show ?case by (simp add: digitsVal_def)
next
  case (snoc c ds)
  then have "0 \<le> digitsVal ds" "digitsVal ds < 10 ^ length ds"
    and "0 \<le> digitVal c" "digitVal c \<le> 9"
    using digitVal_range [of c] by simp_all
  then show ?case
    unfolding digitsVal_snoc by simp
qed

lemma isoDateParts_valid:
  assumes "isoDateParts s = Some (y, m, d)"
  shows "0 \<le> y" "y \<le> 9999" "1 \<le> m" "m \<le> 12" "1 \<le> d" "d \<le> daysInMonth y m"
proof -
  from assms have shape: "length s = 10" "list_all isDigit (take 4 s)"
    and y: "y = digitsVal (take 4 s)"
    and rest: "1 \<le> m \<and> m \<le> 12 \<and> 1 \<le> d \<and> d \<le> daysInMonth y m"
    by (auto simp: isoDateParts_def Let_def split: if_splits)
  from rest show "1 \<le> m" "m \<le> 12" "1 \<le> d" "d \<le> daysInMonth y m"
    by simp_all
  from shape have "length (take 4 s) = 4"
    by simp
  with digitsVal_range [OF shape(2)] have "0 \<le> y \<and> y < 10 ^ 4"
    unfolding y by simp
  then show "0 \<le> y" "y \<le> 9999"
    by simp_all
qed

text \<open>A date string in the date-only form denotes the midnight, in UTC, of its day.\<close>

lemma Date_new_iso:
  assumes "isoDateParts s = Some (y, m, d)"
  shows "Date_new h s = Some (MakeDay y (m - 1) d * msPerDay)"
proof -
  note valid = isoDateParts_valid [OF assms]
  define p where "p = DayFromYear y"
  define k where "k = monthStart (isLeap y) (m - 1) + d - 1"
  have k: "0 \<le> k" "k < 366"
    using day_within_year [OF valid(3-6)] DaysInYear_le [of y]
    unfolding k_def by linarith+
  have "146097 * y - 287811697 \<le> 400 * p" "400 * p \<le> 146097 * y - 287810497"
    unfolding p_def by (rule DayFromYear_bounds)+
  with valid(1,2) have p: "- 1000000 \<le> p" "p \<le> 3000000"
    by linarith+
  have "MakeDay y (m - 1) d = p + k"
    using MakeDay_of_month [OF valid(3,4)] by (simp add: p_def k_def)
  with p k have "\<bar>MakeDay y (m - 1) d * msPerDay\<bar> \<le> 8640000000000000"
    by (simp add: msPerDay_def)
  then show ?thesis
    using assms by (simp add: Date_new_def TimeClip_def MakeDate_def)
qed

lemma monthYear_iso:
  assumes iso: "isoDateParts s = Some (y, m, d)"
    and zone: "0 \<le> LocalTZA h (MakeDay y (m - 1) d * msPerDay) True"
      "LocalTZA h (MakeDay y (m - 1) d * msPerDay) True < msPerDay"
  shows "monthYear h s = months ! nat (m - 1) @ '' '' @ intToString y"
proof -
  note valid = isoDateParts_valid [OF iso]
  define t where "t = MakeDay y (m - 1) d * msPerDay"
  have "Day (LocalTime h t) = MakeDay y (m - 1) d"
    unfolding LocalTime_def t_def using zone by (rule Day_of_midnight_plus)
  then have "YearFromTime (LocalTime h t) = y" "MonthFromTime (LocalTime h t) = m - 1"
    using year_month_of_day [OF valid(3-6)] by simp_all
  then show ?thesis
    using Date_new_iso [OF iso, of h]
    by (simp add: monthYear_def getMonth_def getFullYear_def t_def)
qed

lemma clock_irrelevant:
  "LocalTime (h\<lparr>now := clock\<rparr>) = LocalTime h"
  "Date_new (h\<lparr>now := clock\<rparr>) = Date_new h"
  by (simp_all add: fun_eq_iff LocalTime_def Date_new_def split: option.split)

lemma getters_clock:
  "getMonth (h\<lparr>now := clock\<rparr>) = getMonth h"
  "getFullYear (h\<lparr>now := clock\<rparr>) = getFullYear h"
  by (simp_all add: fun_eq_iff getMonth_def getFullYear_def clock_irrelevant split: option.split)

lemma monthYear_clock: "monthYear (h\<lparr>now := clock\<rparr>) s = monthYear h s"
  by (simp add: monthYear_def clock_irrelevant getters_clock)

text \<open>Under a limit the points are a final part of the points without one.\<close>

lemma slice_drop: "\<exists>k. slice xs start = drop k xs"
  unfolding slice_def Let_def by (rule exI) (rule refl)

lemma transform_suffix:
  "\<exists>k. transformFREDData h observations limit = drop k (transformFREDData h observations None)"
proof (cases "\<exists>l. limit = Some l \<and> truthy l")
  case True
  then obtain l where l: "limit = Some l" "truthy l"
    by auto
  obtain k where "slice (filter notMissing observations) (num_neg l)
                    = drop k (filter notMissing observations)"
    using slice_drop by auto
  then have "transformFREDData h observations limit
               = drop k (transformFREDData h observations None)"
    by (simp add: transformFREDData_def l drop_map)
  then show ?thesis ..
next
  case False
  then have "transformFREDData h observations limit
               = drop 0 (transformFREDData h observations None)"
    by (cases limit) (auto simp: transformFREDData_def)
  then show ?thesis ..
qed

text \<open>
  C5, as amended. Take an observation that is not missing and whose date string is a
  calendar date \<open>YYYY-MM-DD\<close> (year \<open>y\<close>, month \<open>m\<close>), anywhere in a list, in a host whose
  local time zone is at or east of UTC (an offset from 0 to less than 24 hours). Its point
  stands between the points of the observations before it and those of the observations
  after it, and is labelled with the name of month \<open>m\<close> and the year \<open>y\<close>. Under a limit
  the points are a final part of these, so they carry the same labels. The request time
  has no part in any label.
\<close>

theorem transformFREDData_label:
  assumes "obs_value obs \<noteq> ''.''" "obs_value obs \<noteq> []"
    and "isoDateParts (obs_date obs) = Some (y, m, d)"
    and "\<forall>t. 0 \<le> LocalTZA h t True \<and> LocalTZA h t True < msPerDay"
  shows "transformFREDData h (earlier @ obs # later) None
           = transformFREDData h earlier None
             @ \<lparr>cdp_date = months ! nat (m - 1) @ '' '' @ intToString y,
                cdp_value = parseFloat (obs_value obs), cdp_label = None\<rparr>
             # transformFREDData h later None
         \<and> (\<exists>k. transformFREDData h observations limit
                  = drop k (transformFREDData h observations None))
         \<and> transformFREDData (h\<lparr>now := clock\<rparr>) observations limit
           = transformFREDData h observations limit"
proof (intro conjI)
  have "monthYear h (obs_date obs) = months ! nat (m - 1) @ '' '' @ intToString y"
    using assms(3,4) by (intro monthYear_iso) simp_all
  then show "transformFREDData h (earlier @ obs # later) None
           = transformFREDData h earlier None
             @ \<lparr>cdp_date = months ! nat (m - 1) @ '' '' @ intToString y,
                cdp_value = parseFloat (obs_value obs), cdp_label = None\<rparr>
             # transformFREDData h later None"
    using assms(1,2) by (simp add: transformFREDData_def notMissing_def)
next
  show "\<exists>k. transformFREDData h observations limit
              = drop k (transformFREDData h observations None)"
    by (rule transform_suffix)
next
  show "transformFREDData (h\<lparr>now := clock\<rparr>) observations limit
           = transformFREDData h observations limit"
    by (simp add: transformFREDData_def monthYear_clock)
qed

lemma isoDateParts_example: "isoDateParts ''2023-01-01'' = Some (2023, 1, 1)"
  by (simp add: isoDateParts_def isDigit_def digitsVal_def digitVal_def daysInMonth_def isLeap_def
      cong: let_weak_cong)

theorem transformFREDData_label_witness:
  "obs_value (exampleSeries ! 0) \<noteq> ''.'' \<and> obs_value (exampleSeries ! 0) \<noteq> []
   \<and> obs_date (exampleSeries ! 0) = ''2023-01-01''
   \<and> isoDateParts ''2023-01-01'' = Some (2023, 1, 1)
   \<and> LocalTZA exampleHost 1672531200000 True = 0
   \<and> exampleSeries = [] @ exampleSeries ! 0 # tl exampleSeries
   \<and> transformFREDData exampleHost exampleSeries None
       = [\<lparr>cdp_date = ''Jan 2023'', cdp_value = Fin (201 / 2), cdp_label = None\<rparr>,
          \<lparr>cdp_date = ''Feb 2023'', cdp_value = Fin (7121316910779597 / 70368744177664),
            cdp_label = None\<rparr>,
          \<lparr>cdp_date = ''Apr 2023'', cdp_value = Fin 102, cdp_label = None\<rparr>]
   \<and> transformFREDData (exampleHost\<lparr>now := 0\<rparr>) exampleSeries None
       = transformFREDData exampleHost exampleSeries None"
proof -
  have first: "exampleSeries ! 0 = \<lparr>obs_date = ''2023-01-01'', obs_value = ''100.5''\<rparr>"
    by (simp add: exampleSeries_def)
  have rest: "tl exampleSeries
                = [\<lparr>obs_date = ''2023-02-01'', obs_value = ''101.2''\<rparr>,
                   \<lparr>obs_date = ''2023-03-01'', obs_value = ''.''\<rparr>,
                   \<lparr>obs_date = ''2023-04-01'', obs_value = ''102.0''\<rparr>]"
    by (simp add: exampleSeries_def)
  have whole: "exampleSeries = [] @ exampleSeries ! 0 # tl exampleSeries"
    by (simp add: exampleSeries_def)
  have present: "obs_value (exampleSeries ! 0) \<noteq> ''.''" "obs_value (exampleSeries ! 0) \<noteq> []"
    and dated: "obs_date (exampleSeries ! 0) = ''2023-01-01''"
    by (simp_all add: first)
  have iso: "isoDateParts (obs_date (exampleSeries ! 0)) = Some (2023, 1, 1)"
    by (simp add: dated isoDateParts_example)
  have zone: "\<forall>t. 0 \<le> LocalTZA exampleHost t True \<and> LocalTZA exampleHost t True < msPerDay"
    by (simp add: exampleHost_def msPerDay_def)
  have offset: "LocalTZA exampleHost 1672531200000 True = 0"
    by (simp add: exampleHost_def)
  have name: "months ! nat (1 - 1) @ '' '' @ intToString 2023 = ''Jan 2023''"
    by (simp add: months_def intToString_def digitsOf_small digitsOf_large digitChar_def)
  have later: "transformFREDData exampleHost (tl exampleSeries) None
       = [\<lparr>cdp_date = ''Feb 2023'', cdp_value = Fin (7121316910779597 / 70368744177664),
            cdp_label = None\<rparr>,
          \<lparr>cdp_date = ''Apr 2023'', cdp_value = Fin 102, cdp_label = None\<rparr>]"
    unfolding rest
    by (simp add: transformFREDData_def notMissing_def example_labels example_values)
  have none: "transformFREDData exampleHost [] None = []"
    by (simp add: transformFREDData_def)
  from transformFREDData_label [OF present iso zone,
      where earlier = "[]" and later = "tl exampleSeries" and clock = 0
        and observations = exampleSeries and limit = None]
  have "transformFREDData exampleHost exampleSeries None
       = [\<lparr>cdp_date = ''Jan 2023'', cdp_value = Fin (201 / 2), cdp_label = None\<rparr>,
          \<lparr>cdp_date = ''Feb 2023'', cdp_value = Fin (7121316910779597 / 70368744177664),
            cdp_label = None\<rparr>,
          \<lparr>cdp_date = ''Apr 2023'', cdp_value = Fin 102, cdp_label = None\<rparr>]"
    and "transformFREDData (exampleHost\<lparr>now := 0\<rparr>) exampleSeries None
       = transformFREDData exampleHost exampleSeries None"
    unfolding name later none whole [symmetric]
    by (simp_all add: first example_values)
  with present dated offset whole show ?thesis
    by (simp add: isoDateParts_example)
qed

text \<open>
  C5 as stated fails west of UTC: six hours west, the labels of the repository's test list
  are those of the previous months, as the repository's own test expects.
\<close>

theorem transformFREDData_label_counterexample:
  "obs_value (exampleSeries ! 0) \<noteq> ''.'' \<and> obs_value (exampleSeries ! 0) \<noteq> []
   \<and> obs_date (exampleSeries ! 0) = ''2023-01-01''
   \<and> map cdp_date (transformFREDData centralHost exampleSeries None)
       = [''Dec 2022'', ''Jan 2023'', ''Mar 2023'']"
  by (simp add: transformFREDData_def exampleSeries_def notMissing_def central_labels)


section \<open>Year-over-year change\<close>


















end
